theory Spec2Isabelle
  imports Main "HOL-Library.Word" "HOL-Library.Sublist"
begin

unbundle bit_operations_syntax

section \<open>Data shared by the programs\<close>

text \<open>
  The repository holds three stand-alone files, each a single \<open>main\<close> that drives the
  Vulkan driver: \<open>vector_add/vector_add.cpp\<close> (the compute example), \<open>example.cpp\<close> (an
  unfinished compute example) and \<open>triangle/triangle.cpp\<close> (the graphics example). The
  first two are modelled here. The third cannot be compiled as it stands (line 622 names
  a variable that is never declared, line 628 leaves a call unfinished), so it has no
  runs and is not modelled. The driver is not part of the repository: everything it
  answers is a field of the record \<open>driver\<close> below, and every state-changing call a
  program makes is an \<open>event\<close> of the run's trace. The programs are modelled as built
  without \<open>ENABLE_LAYERS\<close>.
\<close>

type_synonym VkResult = int
type_synonym handle = nat
type_synonym VkFlags = "32 word"
type_synonym VkDeviceSize = "64 word"

definition VK_NULL_HANDLE :: handle where
  "VK_NULL_HANDLE = 0"

definition VK_SUCCESS :: VkResult where
  "VK_SUCCESS = 0"

definition VK_QUEUE_GRAPHICS_BIT :: VkFlags where
  "VK_QUEUE_GRAPHICS_BIT = 1"

definition VK_QUEUE_COMPUTE_BIT :: VkFlags where
  "VK_QUEUE_COMPUTE_BIT = 2"

definition VK_MEMORY_PROPERTY_DEVICE_LOCAL_BIT :: VkFlags where
  "VK_MEMORY_PROPERTY_DEVICE_LOCAL_BIT = 1"

definition VK_MEMORY_PROPERTY_HOST_VISIBLE_BIT :: VkFlags where
  "VK_MEMORY_PROPERTY_HOST_VISIBLE_BIT = 2"

definition VK_MEMORY_PROPERTY_HOST_COHERENT_BIT :: VkFlags where
  "VK_MEMORY_PROPERTY_HOST_COHERENT_BIT = 4"

definition VK_MEMORY_PROPERTY_HOST_CACHED_BIT :: VkFlags where
  "VK_MEMORY_PROPERTY_HOST_CACHED_BIT = 8"

record VkMemoryRequirements =
  size_mr :: VkDeviceSize
  alignment_mr :: VkDeviceSize
  memoryTypeBits :: "32 word"

text \<open>
  \<open>VkPhysicalDeviceMemoryProperties\<close>: the count and the \<open>propertyFlags\<close> of the entries of
  the array \<open>memoryTypes[VK_MAX_MEMORY_TYPES]\<close> (32 entries); the heaps are never read.
\<close>

record VkPhysicalDeviceMemoryProperties =
  memoryTypeCount :: "32 word"
  memoryTypes :: "VkFlags list"

definition VK_MAX_MEMORY_TYPES :: nat where
  "VK_MAX_MEMORY_TYPES = 32"

section \<open>Memory type selection\<close>

text \<open>
  \<open>findMemoryTypeFromProperties\<close> (vector_add.cpp, lines 31-41; triangle.cpp has the same
  body under the name \<open>findMemoryTypeIndexFromProperties\<close>). The loop variable is an
  \<open>int32_t\<close> counting up from 0, compared with the unsigned count; the result is the
  index or -1. \<open>memoryTypeBits & (1 << index)\<close> is the shifted bit in 32 bits. The array
  read and the shift are defined in the source only below index 32, which is what a
  driver guarantees (\<open>memoryTypeCount \<le> VK_MAX_MEMORY_TYPES\<close>); the theorems on this
  function assume it.
\<close>

function findMemoryTypeLoop ::
  "nat \<Rightarrow> 32 word \<Rightarrow> VkPhysicalDeviceMemoryProperties \<Rightarrow> VkFlags \<Rightarrow> int" where
  "findMemoryTypeLoop index bits properties requiredProperties =
     (if index < unat (memoryTypeCount properties) then
        (if bits AND push_bit index 1 \<noteq> 0 \<and>
            memoryTypes properties ! index = requiredProperties
         then int index
         else findMemoryTypeLoop (index + 1) bits properties requiredProperties)
      else -1)"
  by pat_completeness auto
termination
  by (relation "measure (\<lambda>(index, bits, properties, requiredProperties).
        unat (memoryTypeCount properties) - index)") auto

declare findMemoryTypeLoop.simps [simp del]

definition findMemoryTypeFromProperties ::
  "32 word \<Rightarrow> VkPhysicalDeviceMemoryProperties \<Rightarrow> VkFlags \<Rightarrow> int" where
  "findMemoryTypeFromProperties bits properties requiredProperties =
     findMemoryTypeLoop 0 bits properties requiredProperties"

definition wellformed_properties :: "VkPhysicalDeviceMemoryProperties \<Rightarrow> bool" where
  "wellformed_properties properties =
     (unat (memoryTypeCount properties) \<le> VK_MAX_MEMORY_TYPES \<and>
      length (memoryTypes properties) = VK_MAX_MEMORY_TYPES)"

section \<open>Device and queue family selection\<close>

text \<open>
  The selection loops of the three programs (vector_add.cpp lines 113-137, triangle.cpp
  lines 192-216, example.cpp lines 105-129) are the same text; only the capability bit
  differs (compute, graphics, compute), so the bit is the first argument here. The inner
  loop walks the queue families with a \<open>uint32_t index\<close>; on the first family with the bit
  it stores the device and the index and leaves the loop. The outer loop leaves when the
  stored device is not the null handle.
\<close>

fun findQueueFamily :: "VkFlags \<Rightarrow> VkFlags list \<Rightarrow> 32 word \<Rightarrow> 32 word option" where
  "findQueueFamily capability [] index = None"
| "findQueueFamily capability (queueFlags # rest) index =
     (if queueFlags AND capability \<noteq> 0 then Some index
      else findQueueFamily capability rest (index + 1))"

fun selectDevice ::
  "VkFlags \<Rightarrow> (handle \<Rightarrow> VkFlags list) \<Rightarrow> handle list \<Rightarrow> handle \<times> 32 word \<Rightarrow> handle \<times> 32 word"
  where
  "selectDevice capability queueFamilyProperties [] selected = selected"
| "selectDevice capability queueFamilyProperties (device # rest) selected =
     (let selected' =
        (case findQueueFamily capability (queueFamilyProperties device) 0 of
           Some index \<Rightarrow> (device, index)
         | None \<Rightarrow> selected)
      in if fst selected' \<noteq> VK_NULL_HANDLE then selected'
         else selectDevice capability queueFamilyProperties rest selected')"

section \<open>Driver calls, objects and runs\<close>

text \<open>
  An object is named after the variable of \<open>main\<close> that holds its handle.
\<close>

datatype obj =
    Instance | Device | SetLayout | PipelineLayout | ShaderModule | Pipeline
  | BufferA | BufferB | BufferResult | Memory
  | DescriptorPool | DescriptorSet | CommandPool | CommandBuffer

datatype VkDescriptorType =
  VK_DESCRIPTOR_TYPE_UNIFORM_BUFFER | VK_DESCRIPTOR_TYPE_STORAGE_BUFFER

datatype VkShaderStage =
  VK_SHADER_STAGE_VERTEX_BIT | VK_SHADER_STAGE_COMPUTE_BIT

record VkDescriptorSetLayoutBinding =
  binding :: "32 word"
  descriptorType :: VkDescriptorType
  descriptorCount :: "32 word"
  stageFlags :: VkShaderStage

record VkDescriptorPoolSize =
  type_ps :: VkDescriptorType
  descriptorCount_ps :: "32 word"

record VkDescriptorBufferInfo =
  buffer_bi :: obj
  offset_bi :: VkDeviceSize
  range_bi :: VkDeviceSize

record VkWriteDescriptorSet =
  dstSet :: obj
  dstBinding :: "32 word"
  dstArrayElement :: "32 word"
  descriptorCount_w :: "32 word"
  descriptorType_w :: VkDescriptorType
  pBufferInfo :: VkDescriptorBufferInfo

definition VK_WHOLE_SIZE :: VkDeviceSize where
  "VK_WHOLE_SIZE = NOT 0"

datatype command =
    BindPipeline | BindDescriptorSets | Dispatch "32 word" "32 word" "32 word"

text \<open>
  The calls a program makes, in the order it makes them, are its trace. \<open>Create x\<close>
  stands for the \<open>vkCreate*\<close>/\<open>vkAllocate*\<close> call that fills the variable
  \<open>x\<close> where no argument of the call matters to a property below; \<open>Destroy x\<close> for the
  \<open>vkDestroy*\<close>/\<open>vkFree*\<close> call on it. Pure queries (\<open>vkGet*\<close>) are read off the driver
  record and leave no event.
\<close>

datatype event =
    Create obj
  | EnumeratePhysicalDevices bool
  | CreateDevice handle "32 word"
  | CreateDescriptorSetLayout "32 word" "VkDescriptorSetLayoutBinding list"
  | CreateDescriptorPool "32 word" "VkDescriptorPoolSize list"
  | AllocateMemory obj VkDeviceSize "32 word"
  | BindBufferMemory obj obj VkDeviceSize
  | UpdateDescriptorSets "VkWriteDescriptorSet list"
  | BeginCommandBuffer
  | Cmd command
  | EndCommandBuffer
  | MapMemory obj
  | UnmapMemory obj
  | QueueSubmit
  | QueueWaitIdle
  | Destroy obj

text \<open>
  The device memory block as the host sees it through the \<open>int32_t *data\<close> pointer that
  \<open>vkMapMemory\<close> returns for offset 0: a store from element index to 32-bit value.
\<close>

type_synonym store = "nat \<Rightarrow> 32 word"

text \<open>
  What the driver answers. \<open>vkResult drv t e\<close> is the \<open>VkResult\<close> of the call \<open>e\<close> made
  after the calls \<open>t\<close> (so that the two \<open>vkMapMemory\<close> calls may be answered differently);
  the remaining fields are the answers of the queries. \<open>initial_memory\<close> is the content
  of the freshly allocated block, which the driver leaves unspecified.
\<close>

record driver =
  vkResult :: "event list \<Rightarrow> event \<Rightarrow> VkResult"
  physicalDevices :: "handle list"
  queueFamilyProperties :: "handle \<Rightarrow> VkFlags list"
  bufferMemoryRequirements :: "obj \<Rightarrow> VkMemoryRequirements"
  physicalDeviceMemoryProperties :: "handle \<Rightarrow> VkPhysicalDeviceMemoryProperties"
  initial_memory :: store

text \<open>
  How a run ends: \<open>main\<close> returns a value, or the program reads through a pointer that
  was never set (a mapping whose failed \<open>vkMapMemory\<close> went unchecked), after which C++
  promises nothing.
\<close>

datatype outcome = Returns int | Undefined

record run =
  outcome :: outcome
  trace :: "event list"
  data :: store
  mismatches :: "nat list"

definition call :: "driver \<Rightarrow> event list \<Rightarrow> event \<Rightarrow> VkResult \<times> event list" where
  "call drv t e = (vkResult drv t e, t @ [e])"

definition finish :: "outcome \<Rightarrow> event list \<Rightarrow> store \<Rightarrow> nat list \<Rightarrow> run" where
  "finish out t d ms = \<lparr>outcome = out, trace = t, data = d, mismatches = ms\<rparr>"

definition early_return :: "driver \<Rightarrow> int \<Rightarrow> event list \<Rightarrow> run" where
  "early_return drv code t = finish (Returns code) t (initial_memory drv) []"

section \<open>The compute example: vector_add.cpp\<close>

text \<open>
  \<open>main\<close> is one straight line of driver calls with early returns. It is cut here into
  consecutive sections, each a definition that ends by calling the next one; the
  arguments of a section are the local variables of \<open>main\<close> that the rest of the program
  reads. The sections are stated last to first, since each names its successor.
\<close>

definition elements :: nat where
  "elements = 1024"

subsection \<open>Lines 525-543: teardown\<close>

definition main_teardown :: "event list \<Rightarrow> store \<Rightarrow> nat list \<Rightarrow> run" where
  "main_teardown t d ms =
     finish (Returns 0)
       (t @ [Destroy CommandPool, Destroy Memory, Destroy BufferResult, Destroy BufferB,
             Destroy BufferA, Destroy DescriptorPool, Destroy Pipeline,
             Destroy PipelineLayout, Destroy SetLayout, Destroy Device, Destroy Instance])
       d ms"

subsection \<open>Lines 506-523: second mapping, verification\<close>

text \<open>
  The indices at which the loop of lines 516-521 prints a message. This time the three
  pointers are computed from the running \<open>dataOffset\<close>. The result of this
  \<open>vkMapMemory\<close> is stored and never tested; \<open>data\<close> was reset to \<open>nullptr\<close> before the
  call, so after a failed mapping the loop reads through a pointer that was never set.
\<close>

definition readback_mismatches :: "nat \<Rightarrow> nat \<Rightarrow> nat \<Rightarrow> store \<Rightarrow> nat list" where
  "readback_mismatches aData bData resultData d =
     filter (\<lambda>index. d (resultData + index) \<noteq> d (aData + index) + d (bData + index))
       [0..<elements]"

definition main_readback :: "driver \<Rightarrow> event list \<Rightarrow> store \<Rightarrow> run" where
  "main_readback drv t d =
     (let (error, t) = call drv t (MapMemory Memory) in
      if error \<noteq> VK_SUCCESS then finish Undefined t d []
      else
        let dataOffset = 0 :: nat;
            aData = 0 :: nat;
            dataOffset = dataOffset + elements;
            bData = 0 + dataOffset;
            dataOffset = dataOffset + elements;
            resultData = 0 + dataOffset;
            ms = readback_mismatches aData bData resultData d;
            t = t @ [UnmapMemory Memory]
        in main_teardown t d ms)"

subsection \<open>Lines 495-504: submission\<close>

text \<open>
  Modelled from the spec: the compute shader \<open>vector_add.comp\<close> (loaded as
  \<open>vector_add.spv\<close>), which is a file of this repository that is not under src/. The
  spec's scenario and the comments of lines 171, 180 and 185 give it: three buffers of
  \<open>int\<close> at bindings 0, 1 and 2, and invocation \<open>i\<close> stores \<open>A[i] + B[i]\<close> into \<open>R[i]\<close>.
  \<open>A\<close>, \<open>B\<close> and \<open>R\<close> are the element indices at which the three buffers start in the
  block, \<open>n\<close> the number of invocations.
\<close>

definition vector_add_comp :: "nat \<Rightarrow> nat \<Rightarrow> nat \<Rightarrow> nat \<Rightarrow> store \<Rightarrow> store" where
  "vector_add_comp A B R n d = fold (\<lambda>i d. d(R + i := d (A + i) + d (B + i))) [0..<n] d"

text \<open>
  Modelled from the spec: what the device does with the recorded command buffer (one
  dispatch of \<open>elements\<close> invocations of the shader above, with the descriptor set of lines
  379-417 bound). A buffer bound at byte offset \<open>o\<close> of the block starts at element
  \<open>o div 4\<close> of the host's \<open>int32_t\<close> view.
\<close>

definition execute_commands ::
  "VkDeviceSize \<times> VkDeviceSize \<times> VkDeviceSize \<Rightarrow> store \<Rightarrow> store" where
  "execute_commands offsets d =
     (case offsets of (offsetA, offsetB, offsetResult) \<Rightarrow>
        vector_add_comp (unat offsetA div 4) (unat offsetB div 4) (unat offsetResult div 4)
          elements d)"

definition main_submit ::
  "driver \<Rightarrow> event list \<Rightarrow> VkDeviceSize \<times> VkDeviceSize \<times> VkDeviceSize \<Rightarrow> store \<Rightarrow> run" where
  "main_submit drv t offsets d =
     (let (submitted, t) = call drv t QueueSubmit;
          t = t @ [QueueWaitIdle];
          d = (if submitted = VK_SUCCESS then execute_commands offsets d else d)
      in main_readback drv t d)"

subsection \<open>Lines 468-493: first mapping, writing the inputs\<close>

text \<open>
  The loop of lines 485-491 over \<open>int32_t index\<close>, with the three pointers as element
  indices into the mapped block. Each round stores \<open>index\<close>, \<open>-index\<close> and 42, in this
  order.
\<close>

function write_inputs_loop :: "nat \<Rightarrow> nat \<Rightarrow> nat \<Rightarrow> nat \<Rightarrow> store \<Rightarrow> store" where
  "write_inputs_loop aData bData resultData index d =
     (if index < elements then
        write_inputs_loop aData bData resultData (index + 1)
          (d(aData + index := word_of_nat index,
             bData + index := - word_of_nat index,
             resultData + index := 42))
      else d)"
  by pat_completeness auto
termination
  by (relation "measure (\<lambda>(aData, bData, resultData, index, d). elements - index)") auto

declare write_inputs_loop.simps [simp del]

text \<open>
  Lines 477-483 as they are written: \<open>dataOffset\<close> is advanced twice and never read, and
  both \<open>bData\<close> and \<open>resultData\<close> are \<open>data + elements\<close>.
\<close>

definition main_write_inputs ::
  "driver \<Rightarrow> event list \<Rightarrow> VkDeviceSize \<times> VkDeviceSize \<times> VkDeviceSize \<Rightarrow> run" where
  "main_write_inputs drv t offsets =
     (let (error, t) = call drv t (MapMemory Memory) in
      if error \<noteq> VK_SUCCESS then early_return drv error t
      else
        let d = initial_memory drv;
            dataOffset = 0 :: nat;
            aData = 0 :: nat;
            dataOffset = dataOffset + elements;
            bData = 0 + elements;
            dataOffset = dataOffset + elements;
            resultData = 0 + elements;
            d = write_inputs_loop aData bData resultData 0 d;
            t = t @ [UnmapMemory Memory]
        in main_submit drv t offsets d)"

subsection \<open>Lines 419-466: command pool, command buffer, recording\<close>

definition main_commands ::
  "driver \<Rightarrow> event list \<Rightarrow> VkDeviceSize \<times> VkDeviceSize \<times> VkDeviceSize \<Rightarrow> run" where
  "main_commands drv t offsets =
     (let (error, t) = call drv t (Create CommandPool) in
      if error \<noteq> VK_SUCCESS then early_return drv error t
      else
        let (error, t) = call drv t (Create CommandBuffer) in
        if error \<noteq> VK_SUCCESS then early_return drv error t
        else
          let t = t @ [BeginCommandBuffer, Cmd BindPipeline, Cmd BindDescriptorSets,
                       Cmd (Dispatch (word_of_nat elements) 1 1)];
              (error, t) = call drv t EndCommandBuffer in
          if error \<noteq> VK_SUCCESS then early_return drv error t
          else main_write_inputs drv t offsets)"

subsection \<open>Lines 339-417: descriptor pool, descriptor set, descriptor writes\<close>

definition descriptorSetWrites :: "VkWriteDescriptorSet list" where
  "descriptorSetWrites =
     (let writeDescriptorSet =
            \<lparr>dstSet = DescriptorSet, dstBinding = 0, dstArrayElement = 0,
             descriptorCount_w = 1, descriptorType_w = VK_DESCRIPTOR_TYPE_STORAGE_BUFFER,
             pBufferInfo = \<lparr>buffer_bi = BufferA, offset_bi = 0, range_bi = VK_WHOLE_SIZE\<rparr>\<rparr>;
          descriptorSetWrites = [writeDescriptorSet];
          writeDescriptorSet = writeDescriptorSet
            \<lparr>dstBinding := 1,
             pBufferInfo := \<lparr>buffer_bi = BufferB, offset_bi = 0, range_bi = VK_WHOLE_SIZE\<rparr>\<rparr>;
          descriptorSetWrites = descriptorSetWrites @ [writeDescriptorSet];
          writeDescriptorSet = writeDescriptorSet
            \<lparr>dstBinding := 2,
             pBufferInfo :=
               \<lparr>buffer_bi = BufferResult, offset_bi = 0, range_bi = VK_WHOLE_SIZE\<rparr>\<rparr>;
          descriptorSetWrites = descriptorSetWrites @ [writeDescriptorSet]
      in descriptorSetWrites)"

text \<open>
  Lines 344-360: one pool size of kind storage buffer, whose count is
  \<open>layoutBindings.size()\<close>; \<open>maxSets\<close> is 1. The result of \<open>vkCreateDescriptorPool\<close> is
  not looked at.
\<close>

definition descriptorPoolSize :: "VkDescriptorSetLayoutBinding list \<Rightarrow> VkDescriptorPoolSize" where
  "descriptorPoolSize layoutBindings =
     \<lparr>type_ps = VK_DESCRIPTOR_TYPE_STORAGE_BUFFER,
      descriptorCount_ps = word_of_nat (length layoutBindings)\<rparr>"

definition main_descriptors ::
  "driver \<Rightarrow> event list \<Rightarrow> VkDescriptorSetLayoutBinding list \<Rightarrow>
   VkDeviceSize \<times> VkDeviceSize \<times> VkDeviceSize \<Rightarrow> run" where
  "main_descriptors drv t layoutBindings offsets =
     (let t = t @ [CreateDescriptorPool 1 [descriptorPoolSize layoutBindings]];
          (error, t) = call drv t (Create DescriptorSet) in
      if error \<noteq> VK_SUCCESS then early_return drv error t
      else
        let t = t @ [UpdateDescriptorSets descriptorSetWrites]
        in main_commands drv t offsets)"

subsection \<open>Lines 273-337: memory requirements, memory type, allocation, binding\<close>

text \<open>
  The size of the block (lines 277-287) and the three bind offsets (lines 318-333), as
  the source computes them from the three \<open>VkMemoryRequirements\<close> variables: running sums
  of the \<open>size\<close> fields in 64-bit arithmetic. The \<open>alignment\<close> fields are not read.
\<close>

definition requiredMemorySize ::
  "VkMemoryRequirements \<Rightarrow> VkMemoryRequirements \<Rightarrow> VkMemoryRequirements \<Rightarrow> VkDeviceSize" where
  "requiredMemorySize bufferAMemoryRequirements bufferBMemoryRequirements
       bufferResultMemoryRequirements =
     (let requiredMemorySize = 0;
          requiredMemorySize = requiredMemorySize + size_mr bufferAMemoryRequirements;
          requiredMemorySize = requiredMemorySize + size_mr bufferBMemoryRequirements;
          requiredMemorySize = requiredMemorySize + size_mr bufferResultMemoryRequirements
      in requiredMemorySize)"

definition memoryOffsets ::
  "VkMemoryRequirements \<Rightarrow> VkMemoryRequirements \<Rightarrow>
   VkDeviceSize \<times> VkDeviceSize \<times> VkDeviceSize" where
  "memoryOffsets bufferAMemoryRequirements bufferBMemoryRequirements =
     (let memoryOffset = 0;
          offsetA = memoryOffset;
          memoryOffset = memoryOffset + size_mr bufferAMemoryRequirements;
          offsetB = memoryOffset;
          memoryOffset = memoryOffset + size_mr bufferBMemoryRequirements;
          offsetResult = memoryOffset
      in (offsetA, offsetB, offsetResult))"

definition main_bind ::
  "driver \<Rightarrow> event list \<Rightarrow> VkDescriptorSetLayoutBinding list \<Rightarrow>
   VkMemoryRequirements \<Rightarrow> VkMemoryRequirements \<Rightarrow> run" where
  "main_bind drv t layoutBindings bufferAMemoryRequirements bufferBMemoryRequirements =
     (case memoryOffsets bufferAMemoryRequirements bufferBMemoryRequirements of
        (offsetA, offsetB, offsetResult) \<Rightarrow>
          let (error, t) = call drv t (BindBufferMemory BufferA Memory offsetA) in
          if error \<noteq> VK_SUCCESS then early_return drv error t
          else
            let (error, t) = call drv t (BindBufferMemory BufferB Memory offsetB) in
            if error \<noteq> VK_SUCCESS then early_return drv error t
            else
              let (error, t) = call drv t (BindBufferMemory BufferResult Memory offsetResult) in
              if error \<noteq> VK_SUCCESS then early_return drv error t
              else main_descriptors drv t layoutBindings (offsetA, offsetB, offsetResult))"

text \<open>
  Lines 277-314. All three \<open>vkGetBufferMemoryRequirements\<close> calls name \<open>bufferA\<close>. The
  memory type is looked up with the type bits of the first answer and the flag set
  host-visible, host-coherent; a negative index leaves \<open>main\<close> with \<open>~42\<close>.
\<close>

definition main_memory ::
  "driver \<Rightarrow> event list \<Rightarrow> handle \<Rightarrow> VkDescriptorSetLayoutBinding list \<Rightarrow> run" where
  "main_memory drv t physicalDevice layoutBindings =
     (let bufferAMemoryRequirements = bufferMemoryRequirements drv BufferA;
          bufferBMemoryRequirements = bufferMemoryRequirements drv BufferA;
          bufferResultMemoryRequirements = bufferMemoryRequirements drv BufferA;
          memoryProperties = physicalDeviceMemoryProperties drv physicalDevice;
          memoryTypeIndex =
            findMemoryTypeFromProperties (memoryTypeBits bufferAMemoryRequirements)
              memoryProperties
              (VK_MEMORY_PROPERTY_HOST_VISIBLE_BIT OR VK_MEMORY_PROPERTY_HOST_COHERENT_BIT)
      in if 0 > memoryTypeIndex then early_return drv (NOT 42) t
         else
           let (error, t) =
                 call drv t
                   (AllocateMemory Memory
                      (requiredMemorySize bufferAMemoryRequirements bufferBMemoryRequirements
                         bufferResultMemoryRequirements)
                      (word_of_int memoryTypeIndex)) in
           if error \<noteq> VK_SUCCESS then early_return drv error t
           else main_bind drv t layoutBindings bufferAMemoryRequirements
                  bufferBMemoryRequirements)"

subsection \<open>Lines 204-271: pipeline and buffers\<close>

definition main_buffers ::
  "driver \<Rightarrow> event list \<Rightarrow> handle \<Rightarrow> VkDescriptorSetLayoutBinding list \<Rightarrow> run" where
  "main_buffers drv t physicalDevice layoutBindings =
     (let (error, t) = call drv t (Create BufferA) in
      if error \<noteq> VK_SUCCESS then early_return drv error t
      else
        let (error, t) = call drv t (Create BufferB) in
        if error \<noteq> VK_SUCCESS then early_return drv error t
        else
          let (error, t) = call drv t (Create BufferResult) in
          if error \<noteq> VK_SUCCESS then early_return drv error t
          else main_memory drv t physicalDevice layoutBindings)"

text \<open>
  The results of \<open>vkCreatePipelineLayout\<close> and \<open>vkCreateShaderModule\<close> are stored and
  overwritten without a test; the shader module is destroyed once the pipeline exists.
\<close>

definition main_pipeline ::
  "driver \<Rightarrow> event list \<Rightarrow> handle \<Rightarrow> VkDescriptorSetLayoutBinding list \<Rightarrow> run" where
  "main_pipeline drv t physicalDevice layoutBindings =
     (let t = t @ [Create PipelineLayout, Create ShaderModule];
          (error, t) = call drv t (Create Pipeline) in
      if error \<noteq> VK_SUCCESS then early_return drv error t
      else
        let t = t @ [Destroy ShaderModule]
        in main_buffers drv t physicalDevice layoutBindings)"

subsection \<open>Lines 167-202: the binding declaration and the set layout\<close>

text \<open>
  The vector \<open>layoutBindings\<close> after its three \<open>push_back\<close>s (lines 168-187); one struct is
  reused with a new \<open>binding\<close> number each time.
\<close>

definition main_layoutBindings :: "VkDescriptorSetLayoutBinding list" where
  "main_layoutBindings =
     (let layoutBinding =
            \<lparr>binding = 0, descriptorType = VK_DESCRIPTOR_TYPE_STORAGE_BUFFER,
             descriptorCount = 1, stageFlags = VK_SHADER_STAGE_COMPUTE_BIT\<rparr>;
          layoutBindings = [layoutBinding];
          layoutBinding = layoutBinding\<lparr>binding := 1\<rparr>;
          layoutBindings = layoutBindings @ [layoutBinding];
          layoutBinding = layoutBinding\<lparr>binding := 2\<rparr>;
          layoutBindings = layoutBindings @ [layoutBinding]
      in layoutBindings)"

text \<open>
  From line 189 on the program reads the declaration only through the variable
  \<open>layoutBindings\<close> (here and for the pool size), so the rest of \<open>main\<close> is a function of
  that vector.
\<close>

definition main_layout ::
  "driver \<Rightarrow> event list \<Rightarrow> handle \<Rightarrow> VkDescriptorSetLayoutBinding list \<Rightarrow> run" where
  "main_layout drv t physicalDevice layoutBindings =
     (let (error, t) =
            call drv t
              (CreateDescriptorSetLayout (word_of_nat (length layoutBindings)) layoutBindings) in
      if error \<noteq> VK_SUCCESS then early_return drv error t
      else main_pipeline drv t physicalDevice layoutBindings)"

subsection \<open>Lines 43-165: instance, physical device, logical device\<close>

definition main_device :: "driver \<Rightarrow> event list \<Rightarrow> run" where
  "main_device drv t =
     (case selectDevice VK_QUEUE_COMPUTE_BIT (queueFamilyProperties drv) (physicalDevices drv)
             (VK_NULL_HANDLE, 0) of
        (physicalDevice, queueFamilyIndex) \<Rightarrow>
          let (error, t) = call drv t (CreateDevice physicalDevice queueFamilyIndex) in
          if error \<noteq> VK_SUCCESS then early_return drv error t
          else main_layout drv t physicalDevice main_layoutBindings)"

definition main :: "driver \<Rightarrow> run" where
  "main drv =
     (let (error, t) = call drv [] (Create Instance) in
      if error \<noteq> VK_SUCCESS then early_return drv error t
      else
        let (error, t) = call drv t (EnumeratePhysicalDevices False) in
        if error \<noteq> VK_SUCCESS then early_return drv error t
        else
          let (error, t) = call drv t (EnumeratePhysicalDevices True) in
          if error \<noteq> VK_SUCCESS then early_return drv error t
          else main_device drv t)"

section \<open>The unfinished compute example: example.cpp\<close>

text \<open>
  Lines 159-190: an array of three bindings, all three filled in, handed to the layout
  with \<open>bindingCount = 2\<close>. The program stops after the pipeline (the rest is a list of
  TODO comments) and tears down what it created.
\<close>

definition example_layoutBindings :: "VkDescriptorSetLayoutBinding list" where
  "example_layoutBindings =
     [\<lparr>binding = 0, descriptorType = VK_DESCRIPTOR_TYPE_STORAGE_BUFFER,
       descriptorCount = 1, stageFlags = VK_SHADER_STAGE_COMPUTE_BIT\<rparr>,
      \<lparr>binding = 1, descriptorType = VK_DESCRIPTOR_TYPE_STORAGE_BUFFER,
       descriptorCount = 1, stageFlags = VK_SHADER_STAGE_COMPUTE_BIT\<rparr>,
      \<lparr>binding = 2, descriptorType = VK_DESCRIPTOR_TYPE_STORAGE_BUFFER,
       descriptorCount = 1, stageFlags = VK_SHADER_STAGE_COMPUTE_BIT\<rparr>]"

definition example_layout :: "driver \<Rightarrow> event list \<Rightarrow> run" where
  "example_layout drv t =
     (let (error, t) = call drv t (CreateDescriptorSetLayout 2 example_layoutBindings) in
      if error \<noteq> VK_SUCCESS then early_return drv error t
      else
        let t = t @ [Create PipelineLayout, Create ShaderModule];
            (error, t) = call drv t (Create Pipeline) in
        if error \<noteq> VK_SUCCESS then early_return drv error t
        else
          finish (Returns 0)
            (t @ [Destroy ShaderModule, Destroy Pipeline, Destroy PipelineLayout,
                  Destroy SetLayout, Destroy Device, Destroy Instance])
            (initial_memory drv) [])"

definition example_main :: "driver \<Rightarrow> run" where
  "example_main drv =
     (let (error, t) = call drv [] (Create Instance) in
      if error \<noteq> VK_SUCCESS then early_return drv error t
      else
        let (error, t) = call drv t (EnumeratePhysicalDevices False) in
        if error \<noteq> VK_SUCCESS then early_return drv error t
        else
          let (error, t) = call drv t (EnumeratePhysicalDevices True) in
          if error \<noteq> VK_SUCCESS then early_return drv error t
          else
            (case selectDevice VK_QUEUE_COMPUTE_BIT (queueFamilyProperties drv)
                    (physicalDevices drv) (VK_NULL_HANDLE, 0) of
               (physicalDevice, queueFamilyIndex) \<Rightarrow>
                 let (error, t) = call drv t (CreateDevice physicalDevice queueFamilyIndex) in
                 if error \<noteq> VK_SUCCESS then early_return drv error t
                 else example_layout drv t))"

section \<open>Reading a trace\<close>

text \<open>The objects a trace creates and the objects it releases, in the order of the calls.\<close>

fun creates :: "event \<Rightarrow> obj option" where
  "creates (Create x) = Some x"
| "creates (CreateDevice physicalDevice queueFamilyIndex) = Some Device"
| "creates (CreateDescriptorSetLayout n bs) = Some SetLayout"
| "creates (CreateDescriptorPool n ps) = Some DescriptorPool"
| "creates (AllocateMemory m s i) = Some m"
| "creates e = None"

fun destroys :: "event \<Rightarrow> obj option" where
  "destroys (Destroy x) = Some x"
| "destroys e = None"

definition created :: "event list \<Rightarrow> obj list" where
  "created t = List.map_filter creates t"

definition destroyed :: "event list \<Rightarrow> obj list" where
  "destroyed t = List.map_filter destroys t"

text \<open>\<open>released_before x y t\<close>: the trace releases \<open>x\<close> and, later, \<open>y\<close>.\<close>

definition released_before :: "obj \<Rightarrow> obj \<Rightarrow> event list \<Rightarrow> bool" where
  "released_before x y t =
     (x \<noteq> y \<and> Destroy y \<in> set (dropWhile (\<lambda>e. e \<noteq> Destroy x) t))"

text \<open>
  The lifetime rule of the specification for the compute example: the block is released
  after each of the three buffers bound into it.
\<close>

definition memory_outlives_buffers :: "event list \<Rightarrow> bool" where
  "memory_outlives_buffers t =
     (released_before BufferA Memory t \<and> released_before BufferB Memory t \<and>
      released_before BufferResult Memory t)"

text \<open>The calls that open or close a mapping of the block or hand work to the queue.\<close>

fun is_sync :: "event \<Rightarrow> bool" where
  "is_sync (MapMemory m) = True"
| "is_sync (UnmapMemory m) = True"
| "is_sync QueueSubmit = True"
| "is_sync QueueWaitIdle = True"
| "is_sync e = False"

definition sync_events :: "event list \<Rightarrow> event list" where
  "sync_events t = filter is_sync t"

text \<open>
  The state of the block along a trace: mapped or not, work in flight or not. The check
  fails at a submission made while the block is mapped and at a mapping made while work
  is in flight.
\<close>

fun exclusive :: "bool \<Rightarrow> bool \<Rightarrow> event list \<Rightarrow> bool" where
  "exclusive mapped inflight [] = True"
| "exclusive mapped inflight (MapMemory m # t) = (\<not> inflight \<and> exclusive True inflight t)"
| "exclusive mapped inflight (UnmapMemory m # t) = exclusive False inflight t"
| "exclusive mapped inflight (QueueSubmit # t) = (\<not> mapped \<and> exclusive mapped True t)"
| "exclusive mapped inflight (QueueWaitIdle # t) = exclusive mapped False t"
| "exclusive mapped inflight (e # t) = exclusive mapped inflight t"

fun is_memory_event :: "event \<Rightarrow> bool" where
  "is_memory_event (AllocateMemory m s i) = True"
| "is_memory_event (BindBufferMemory b m off) = True"
| "is_memory_event e = False"

definition memory_events :: "event list \<Rightarrow> event list" where
  "memory_events t = filter is_memory_event t"










section \<open>The calls of a run that reaches the end\<close>

text \<open>
  Each program is a straight line, so the trace of any run is an initial piece of the
  list of calls it makes when nothing stops it. These lists are the yardstick of the
  lemmas below; they are read off the sections above.
\<close>

definition calls_after_layout ::
  "driver \<Rightarrow> handle \<Rightarrow> VkDescriptorSetLayoutBinding list \<Rightarrow> event list" where
  "calls_after_layout drv physicalDevice layoutBindings =
     (let r = bufferMemoryRequirements drv BufferA in
      [CreateDescriptorSetLayout (word_of_nat (length layoutBindings)) layoutBindings,
       Create PipelineLayout, Create ShaderModule, Create Pipeline, Destroy ShaderModule,
       Create BufferA, Create BufferB, Create BufferResult,
       AllocateMemory Memory (requiredMemorySize r r r)
         (word_of_int (findMemoryTypeFromProperties (memoryTypeBits r)
            (physicalDeviceMemoryProperties drv physicalDevice)
            (VK_MEMORY_PROPERTY_HOST_VISIBLE_BIT OR VK_MEMORY_PROPERTY_HOST_COHERENT_BIT))),
       BindBufferMemory BufferA Memory (fst (memoryOffsets r r)),
       BindBufferMemory BufferB Memory (fst (snd (memoryOffsets r r))),
       BindBufferMemory BufferResult Memory (snd (snd (memoryOffsets r r))),
       CreateDescriptorPool 1 [descriptorPoolSize layoutBindings],
       Create DescriptorSet, UpdateDescriptorSets descriptorSetWrites,
       Create CommandPool, Create CommandBuffer, BeginCommandBuffer, Cmd BindPipeline,
       Cmd BindDescriptorSets, Cmd (Dispatch (word_of_nat elements) 1 1), EndCommandBuffer,
       MapMemory Memory, UnmapMemory Memory, QueueSubmit, QueueWaitIdle,
       MapMemory Memory, UnmapMemory Memory,
       Destroy CommandPool, Destroy Memory, Destroy BufferResult, Destroy BufferB,
       Destroy BufferA, Destroy DescriptorPool, Destroy Pipeline,
       Destroy PipelineLayout, Destroy SetLayout, Destroy Device, Destroy Instance])"

definition selected :: "VkFlags \<Rightarrow> driver \<Rightarrow> handle \<times> 32 word" where
  "selected capability drv =
     selectDevice capability (queueFamilyProperties drv) (physicalDevices drv)
       (VK_NULL_HANDLE, 0)"

definition main_calls :: "driver \<Rightarrow> event list" where
  "main_calls drv =
     [Create Instance, EnumeratePhysicalDevices False, EnumeratePhysicalDevices True,
      CreateDevice (fst (selected VK_QUEUE_COMPUTE_BIT drv))
        (snd (selected VK_QUEUE_COMPUTE_BIT drv))]
     @ calls_after_layout drv (fst (selected VK_QUEUE_COMPUTE_BIT drv)) main_layoutBindings"

section \<open>The layout rule of the specification\<close>

text \<open>
  The specification's \<open>planAllocation\<close>, in its own words and for any number of
  resources: the first offset is 0, each next offset adds the aligned size of the
  resource before it, where the aligned size is the required size rounded up to the
  required alignment; the total is the final offset. It is stated over unbounded
  numbers, to be compared with what \<open>requiredMemorySize\<close> and \<open>memoryOffsets\<close> compute.
\<close>

definition spec_alignedSize :: "VkMemoryRequirements \<Rightarrow> nat" where
  "spec_alignedSize r =
     ((unat (size_mr r) + unat (alignment_mr r) - 1) div unat (alignment_mr r))
       * unat (alignment_mr r)"

fun spec_offsets :: "nat \<Rightarrow> VkMemoryRequirements list \<Rightarrow> nat list" where
  "spec_offsets off [] = []"
| "spec_offsets off (r # rs) = off # spec_offsets (off + spec_alignedSize r) rs"

definition spec_total :: "VkMemoryRequirements list \<Rightarrow> nat" where
  "spec_total rs = sum_list (map spec_alignedSize rs)"

section \<open>The pool rule of the specification\<close>






section \<open>Concrete drivers\<close>

text \<open>
  A driver that answers every call with \<open>VK_SUCCESS\<close>: one physical device with one
  queue family for graphics and compute, buffers that need 4096 bytes at alignment 64,
  a host-visible coherent memory type 0 and a device-local type 1, and a block that
  starts out zeroed.
\<close>

definition ok_properties :: VkPhysicalDeviceMemoryProperties where
  "ok_properties = \<lparr>memoryTypeCount = 2, memoryTypes = [6, 1] @ replicate 30 0\<rparr>"

definition drv_ok :: driver where
  "drv_ok =
     \<lparr>vkResult = (\<lambda>t e. VK_SUCCESS),
      physicalDevices = [1],
      queueFamilyProperties = (\<lambda>d. [VK_QUEUE_GRAPHICS_BIT OR VK_QUEUE_COMPUTE_BIT]),
      bufferMemoryRequirements =
        (\<lambda>b. \<lparr>size_mr = 4096, alignment_mr = 64, memoryTypeBits = 1\<rparr>),
      physicalDeviceMemoryProperties = (\<lambda>d. ok_properties),
      initial_memory = (\<lambda>i. 0)\<rparr>"

text \<open>
  The only device has a graphics-only queue family, and the driver answers
  \<open>vkCreateDevice\<close> on the null handle with \<open>VK_ERROR_INITIALIZATION_FAILED\<close> (-3).
\<close>

definition drv_no_compute :: driver where
  "drv_no_compute =
     drv_ok\<lparr>queueFamilyProperties := (\<lambda>d. [VK_QUEUE_GRAPHICS_BIT]),
            vkResult := (\<lambda>t e. if e = CreateDevice VK_NULL_HANDLE 0 then -3 else VK_SUCCESS)\<rparr>"

text \<open>
  The only device has a graphics-only queue family, and the driver answers every call,
  \<open>vkCreateDevice\<close> on the null handle included, with \<open>VK_SUCCESS\<close>.
\<close>

definition drv_null_accepted :: driver where
  "drv_null_accepted = drv_ok\<lparr>queueFamilyProperties := (\<lambda>d. [VK_QUEUE_GRAPHICS_BIT])\<rparr>"

text \<open>
  Three devices; only the third has a compute queue family, at index 2 (the families of
  the first two are graphics and transfer only).
\<close>

definition three_devices :: "handle list" where
  "three_devices = [11, 12, 13]"

definition three_devices_families :: "handle \<Rightarrow> VkFlags list" where
  "three_devices_families d =
     (if d = 11 then [1] else if d = 12 then [4, 1] else if d = 13 then [1, 4, 2] else [])"

text \<open>
  The only host-visible coherent memory type is also host-cached (flags 14, a superset
  of the requested 6).
\<close>

definition superset_properties :: VkPhysicalDeviceMemoryProperties where
  "superset_properties = \<lparr>memoryTypeCount = 2, memoryTypes = [14, 1] @ replicate 30 0\<rparr>"

definition drv_superset :: driver where
  "drv_superset = drv_ok\<lparr>physicalDeviceMemoryProperties := (\<lambda>d. superset_properties)\<rparr>"

text \<open>Buffers that need 4100 bytes at alignment 64.\<close>

definition unaligned_requirements :: VkMemoryRequirements where
  "unaligned_requirements = \<lparr>size_mr = 4100, alignment_mr = 64, memoryTypeBits = 1\<rparr>"

definition aligned_requirements :: VkMemoryRequirements where
  "aligned_requirements = \<lparr>size_mr = 4096, alignment_mr = 64, memoryTypeBits = 1\<rparr>"

definition drv_unaligned :: driver where
  "drv_unaligned = drv_ok\<lparr>bufferMemoryRequirements := (\<lambda>b. unaligned_requirements)\<rparr>"

text \<open>Buffers B and Result would need more than buffer A.\<close>

definition drv_bigger_B :: driver where
  "drv_bigger_B =
     drv_ok\<lparr>bufferMemoryRequirements :=
       (\<lambda>b. if b = BufferA then aligned_requirements
            else \<lparr>size_mr = 8192, alignment_mr = 256, memoryTypeBits = 1\<rparr>)\<rparr>"

definition all_succeed :: "driver \<Rightarrow> bool" where
  "all_succeed drv = (\<forall>t e. vkResult drv t e = VK_SUCCESS)"

section \<open>Lemmas on the selection loops\<close>

lemma findQueueFamily_None:
  "(findQueueFamily capability fams index = None) = (\<forall>f\<in>set fams. f AND capability = 0)"
  by (induction fams arbitrary: index) auto

lemma findQueueFamily_first:
  "j < length fams \<Longrightarrow> fams ! j AND capability \<noteq> 0 \<Longrightarrow> \<forall>i<j. fams ! i AND capability = 0 \<Longrightarrow>
   findQueueFamily capability fams index = Some (index + word_of_nat j)"
proof (induction fams arbitrary: index j)
  case Nil
  then show ?case by simp
next
  case (Cons f fams)
  show ?case
  proof (cases j)
    case 0
    with Cons.prems show ?thesis by simp
  next
    case (Suc j')
    from Cons.prems Suc have f0: "f AND capability = 0" by auto
    from Cons.prems Suc have "j' < length fams" "fams ! j' AND capability \<noteq> 0"
      "\<forall>i<j'. fams ! i AND capability = 0" by auto
    from Cons.IH[OF this] f0 Suc show ?thesis by (simp add: algebra_simps)
  qed
qed

lemma selectDevice_none:
  "\<forall>d\<in>set devices. \<forall>f\<in>set (qfp d). f AND capability = 0 \<Longrightarrow>
   selectDevice capability qfp devices (VK_NULL_HANDLE, index) = (VK_NULL_HANDLE, index)"
proof (induction devices)
  case Nil
  then show ?case by simp
next
  case (Cons d devices)
  then have "findQueueFamily capability (qfp d) 0 = None"
    by (simp add: findQueueFamily_None)
  with Cons show ?case by (simp add: Let_def)
qed

section \<open>Lemmas on the memory type loop\<close>

lemma findMemoryTypeLoop_unfold:
  "findMemoryTypeLoop index bits properties required =
     (if index < unat (memoryTypeCount properties) then
        (if bit bits index \<and> memoryTypes properties ! index = required then int index
         else findMemoryTypeLoop (index + 1) bits properties required)
      else -1)"
  by (subst findMemoryTypeLoop.simps) (simp add: and_exp_eq_0_iff_not_bit)

lemma findMemoryTypeLoop_result:
  "findMemoryTypeLoop index bits properties required = r \<Longrightarrow>
   (r = -1 \<and> (\<forall>i. index \<le> i \<and> i < unat (memoryTypeCount properties) \<longrightarrow>
        \<not> (bit bits i \<and> memoryTypes properties ! i = required))) \<or>
   (0 \<le> r \<and> index \<le> nat r \<and> nat r < unat (memoryTypeCount properties) \<and>
    bit bits (nat r) \<and> memoryTypes properties ! nat r = required \<and>
    (\<forall>i. index \<le> i \<and> i < nat r \<longrightarrow> \<not> (bit bits i \<and> memoryTypes properties ! i = required)))"
proof (induction index bits properties required arbitrary: r rule: findMemoryTypeLoop.induct)
  case (1 index bits properties requiredProperties)
  show ?case
  proof (cases "index < unat (memoryTypeCount properties)")
    case False
    with "1.prems" show ?thesis
      by (subst (asm) findMemoryTypeLoop_unfold) auto
  next
    case in_range: True
    show ?thesis
    proof (cases "bit bits index \<and> memoryTypes properties ! index = requiredProperties")
      case True
      with in_range "1.prems" have "r = int index"
        by (subst (asm) findMemoryTypeLoop_unfold) simp
      with True in_range show ?thesis by auto
    next
      case False
      with in_range "1.prems"
      have step: "findMemoryTypeLoop (index + 1) bits properties requiredProperties = r"
        by (subst (asm) findMemoryTypeLoop_unfold) auto
      have guard: "\<not> (bits AND push_bit index 1 \<noteq> 0 \<and>
          memoryTypes properties ! index = requiredProperties)"
        using False by (simp add: and_exp_eq_0_iff_not_bit)
      from "1.IH"[OF in_range guard step]
      have ih: "(r = -1 \<and> (\<forall>i. index + 1 \<le> i \<and> i < unat (memoryTypeCount properties) \<longrightarrow>
        \<not> (bit bits i \<and> memoryTypes properties ! i = requiredProperties))) \<or>
         (0 \<le> r \<and> index + 1 \<le> nat r \<and> nat r < unat (memoryTypeCount properties) \<and>
         bit bits (nat r) \<and> memoryTypes properties ! nat r = requiredProperties \<and>
        (\<forall>i. index + 1 \<le> i \<and> i < nat r \<longrightarrow>
           \<not> (bit bits i \<and> memoryTypes properties ! i = requiredProperties)))" .
      have next_index: "\<And>i. index \<le> i \<Longrightarrow> i = index \<or> index + 1 \<le> i" by auto
      from ih show ?thesis
      proof
        assume a: "r = -1 \<and> (\<forall>i. index + 1 \<le> i \<and> i < unat (memoryTypeCount properties) \<longrightarrow>
          \<not> (bit bits i \<and> memoryTypes properties ! i = requiredProperties))"
        with False next_index have "\<forall>i. index \<le> i \<and> i < unat (memoryTypeCount properties) \<longrightarrow>
          \<not> (bit bits i \<and> memoryTypes properties ! i = requiredProperties)" by blast
        with a show ?thesis by blast
      next
        assume b: "0 \<le> r \<and> index + 1 \<le> nat r \<and> nat r < unat (memoryTypeCount properties) \<and>
         bit bits (nat r) \<and> memoryTypes properties ! nat r = requiredProperties \<and>
        (\<forall>i. index + 1 \<le> i \<and> i < nat r \<longrightarrow>
           \<not> (bit bits i \<and> memoryTypes properties ! i = requiredProperties))"
        with False next_index have "\<forall>i. index \<le> i \<and> i < nat r \<longrightarrow>
          \<not> (bit bits i \<and> memoryTypes properties ! i = requiredProperties)" by blast
        moreover from b have "index \<le> nat r" by linarith
        ultimately show ?thesis using b by blast
      qed
    qed
  qed
qed

section \<open>Every trace is an initial piece of the program's calls\<close>

lemmas section_defs = main_layout_def main_pipeline_def main_buffers_def main_memory_def
  main_bind_def main_descriptors_def main_commands_def main_write_inputs_def main_submit_def
  main_readback_def main_teardown_def early_return_def finish_def call_def

lemma main_layout_prefix:
  "prefix (trace (main_layout drv t physicalDevice layoutBindings))
     (t @ calls_after_layout drv physicalDevice layoutBindings)"
  by (simp add: section_defs calls_after_layout_def Let_def split_def)

lemma main_layout_extends:
  "prefix t (trace (main_layout drv t physicalDevice layoutBindings))"
  by (simp add: section_defs Let_def split_def)

lemma main_layout_begins:
  "prefix (t @ [CreateDescriptorSetLayout (word_of_nat (length layoutBindings)) layoutBindings])
     (trace (main_layout drv t physicalDevice layoutBindings))"
  by (simp add: section_defs Let_def split_def)

lemma main_layout_complete:
  "outcome (main_layout drv t physicalDevice layoutBindings) = Returns 0 \<Longrightarrow>
   trace (main_layout drv t physicalDevice layoutBindings) =
     t @ calls_after_layout drv physicalDevice layoutBindings"
  by (simp add: section_defs calls_after_layout_def Let_def split_def VK_SUCCESS_def
      split: if_splits)

lemma main_prefix: "prefix (trace (main drv)) (main_calls drv)"
  using main_layout_prefix [of drv
      "[Create Instance, EnumeratePhysicalDevices False, EnumeratePhysicalDevices True,
        CreateDevice (fst (selected VK_QUEUE_COMPUTE_BIT drv))
          (snd (selected VK_QUEUE_COMPUTE_BIT drv))]"
      "fst (selected VK_QUEUE_COMPUTE_BIT drv)" main_layoutBindings]
  by (simp add: main_def main_device_def main_calls_def selected_def early_return_def
      finish_def call_def Let_def split_def)

lemma main_complete:
  "outcome (main drv) = Returns 0 \<Longrightarrow> trace (main drv) = main_calls drv"
  using main_layout_complete [of drv
      "[Create Instance, EnumeratePhysicalDevices False, EnumeratePhysicalDevices True,
        CreateDevice (fst (selected VK_QUEUE_COMPUTE_BIT drv))
          (snd (selected VK_QUEUE_COMPUTE_BIT drv))]"
      "fst (selected VK_QUEUE_COMPUTE_BIT drv)" main_layoutBindings]
  by (simp add: main_def main_device_def main_calls_def selected_def early_return_def
      finish_def call_def Let_def split_def VK_SUCCESS_def split: if_splits)

lemma superset_reaches_memory:
  "main drv_superset =
     main_memory drv_superset
       [Create Instance, EnumeratePhysicalDevices False, EnumeratePhysicalDevices True,
        CreateDevice 1 0, CreateDescriptorSetLayout 3 main_layoutBindings,
        Create PipelineLayout, Create ShaderModule, Create Pipeline, Destroy ShaderModule,
        Create BufferA, Create BufferB, Create BufferResult] 1 main_layoutBindings"
  by (simp add: main_def main_device_def main_layout_def main_pipeline_def main_buffers_def
      call_def drv_superset_def drv_ok_def VK_SUCCESS_def VK_QUEUE_COMPUTE_BIT_def
      VK_QUEUE_GRAPHICS_BIT_def VK_NULL_HANDLE_def main_layoutBindings_def)

section \<open>Device selection\<close>

text \<open>
  C5. The selection walks the devices in enumeration order and the queue families of each
  in index order: when device \<open>k\<close> is the first with a family that has the capability
  bit, \<open>j\<close> is the first such family of that device, and the handle of device \<open>k\<close> is a
  real (non-null) handle, as every enumerated handle is, the result is device \<open>k\<close> with
  family index \<open>j\<close>.
\<close>

theorem selectDevice_first_capable:
  assumes "devices ! k \<noteq> VK_NULL_HANDLE"
    and "k < length devices"
    and "\<forall>i<k. \<forall>f\<in>set (families (devices ! i)). f AND capability = 0"
    and "j < length (families (devices ! k))"
    and "families (devices ! k) ! j AND capability \<noteq> 0"
    and "\<forall>i<j. families (devices ! k) ! i AND capability = 0"
  shows "selectDevice capability families devices (VK_NULL_HANDLE, 0)
           = (devices ! k, word_of_nat j)"
  using assms
proof (induction devices arbitrary: k)
  case Nil
  then show ?case by simp
next
  case (Cons d devices)
  show ?case
  proof (cases k)
    case 0
    with Cons.prems have "findQueueFamily capability (families d) 0 = Some (0 + word_of_nat j)"
      by (intro findQueueFamily_first) auto
    with Cons.prems 0 show ?thesis by (simp add: Let_def)
  next
    case (Suc k')
    from Cons.prems Suc have "\<forall>f\<in>set (families d). f AND capability = 0" by auto
    then have none: "findQueueFamily capability (families d) 0 = None"
      by (simp add: findQueueFamily_None)
    from Cons.prems Suc have "selectDevice capability families devices (VK_NULL_HANDLE, 0) = (devices ! k', word_of_nat j)"
      by (intro Cons.IH) auto
    with none Suc show ?thesis by (simp add: Let_def)
  qed
qed

text \<open>
  The scenario of the specification: three devices, only the third has a compute family,
  at index 2.
\<close>

theorem selectDevice_first_capable_witness:
  "selectDevice VK_QUEUE_COMPUTE_BIT three_devices_families three_devices (VK_NULL_HANDLE, 0)
     = (13, 2)"
proof -
  have h1: "three_devices ! 2 \<noteq> VK_NULL_HANDLE"
    by (simp add: three_devices_def VK_NULL_HANDLE_def)
  have h2: "2 < length three_devices"
    by (simp add: three_devices_def)
  have h3: "\<forall>i<2. \<forall>f\<in>set (three_devices_families (three_devices ! i)).
      f AND VK_QUEUE_COMPUTE_BIT = 0"
    by (simp add: three_devices_def three_devices_families_def VK_QUEUE_COMPUTE_BIT_def
        less_Suc_eq numeral_2_eq_2)
  have h4: "2 < length (three_devices_families (three_devices ! 2))"
    by (simp add: three_devices_def three_devices_families_def)
  have h5: "three_devices_families (three_devices ! 2) ! 2 AND VK_QUEUE_COMPUTE_BIT \<noteq> 0"
    by (simp add: three_devices_def three_devices_families_def VK_QUEUE_COMPUTE_BIT_def)
  have h6: "\<forall>i<2. three_devices_families (three_devices ! 2) ! i AND VK_QUEUE_COMPUTE_BIT = 0"
    by (simp add: three_devices_def three_devices_families_def VK_QUEUE_COMPUTE_BIT_def
        less_Suc_eq numeral_2_eq_2)
  from selectDevice_first_capable [OF h1 h2 h3 h4 h5 h6]
  show ?thesis by (simp add: three_devices_def)
qed

text \<open>
  C3, as the specification states it, fails: with a single device whose only queue family
  is graphics-only the selection ends with the null handle and index 0, and the program
  goes on to call \<open>vkCreateDevice\<close> on the null handle; what it returns is the driver's
  answer to that call.
\<close>

theorem no_capable_device_counterexample:
  "selectDevice VK_QUEUE_COMPUTE_BIT (queueFamilyProperties drv_no_compute)
     (physicalDevices drv_no_compute) (VK_NULL_HANDLE, 0) = (VK_NULL_HANDLE, 0) \<and>
   trace (main drv_no_compute) =
     [Create Instance, EnumeratePhysicalDevices False, EnumeratePhysicalDevices True,
      CreateDevice VK_NULL_HANDLE 0] \<and>
   outcome (main drv_no_compute) = Returns (-3)"
  by (simp add: main_def main_device_def drv_no_compute_def drv_ok_def call_def
      early_return_def finish_def VK_SUCCESS_def VK_QUEUE_COMPUTE_BIT_def
      VK_QUEUE_GRAPHICS_BIT_def VK_NULL_HANDLE_def)

text \<open>
  C3, amended. If no enumerated device has a queue family with the compute bit, the
  selection leaves \<open>physicalDevice\<close> the null handle and \<open>queueFamilyIndex\<close> 0, and a run
  that got its instance and its device list calls \<open>vkCreateDevice\<close> with that null
  handle. The run stops there if and only if the driver rejects the call: if it does,
  the call is the last of the run, which returns the driver's result code; if it does
  not, the run goes on to create the descriptor set layout.
\<close>

theorem no_capable_device_proceeds:
  assumes none: "\<forall>d\<in>set (physicalDevices drv).
             \<forall>f\<in>set (queueFamilyProperties drv d). f AND VK_QUEUE_COMPUTE_BIT = 0"
    and created: "vkResult drv [] (Create Instance) = VK_SUCCESS"
    and counted: "vkResult drv [Create Instance] (EnumeratePhysicalDevices False) = VK_SUCCESS"
    and listed: "vkResult drv [Create Instance, EnumeratePhysicalDevices False]
                   (EnumeratePhysicalDevices True) = VK_SUCCESS"
  shows "selectDevice VK_QUEUE_COMPUTE_BIT (queueFamilyProperties drv) (physicalDevices drv)
           (VK_NULL_HANDLE, 0) = (VK_NULL_HANDLE, 0) \<and>
         prefix [Create Instance, EnumeratePhysicalDevices False,
                 EnumeratePhysicalDevices True, CreateDevice VK_NULL_HANDLE 0]
           (trace (main drv)) \<and>
         (vkResult drv [Create Instance, EnumeratePhysicalDevices False,
                        EnumeratePhysicalDevices True] (CreateDevice VK_NULL_HANDLE 0)
            \<noteq> VK_SUCCESS \<longrightarrow>
          outcome (main drv) =
            Returns (vkResult drv [Create Instance, EnumeratePhysicalDevices False,
                                   EnumeratePhysicalDevices True]
                       (CreateDevice VK_NULL_HANDLE 0)) \<and>
          trace (main drv) =
            [Create Instance, EnumeratePhysicalDevices False,
             EnumeratePhysicalDevices True, CreateDevice VK_NULL_HANDLE 0]) \<and>
         (vkResult drv [Create Instance, EnumeratePhysicalDevices False,
                        EnumeratePhysicalDevices True] (CreateDevice VK_NULL_HANDLE 0)
            = VK_SUCCESS \<longrightarrow>
          prefix [Create Instance, EnumeratePhysicalDevices False,
                  EnumeratePhysicalDevices True, CreateDevice VK_NULL_HANDLE 0,
                  CreateDescriptorSetLayout 3 main_layoutBindings]
            (trace (main drv)))"
proof -
  have sel: "selectDevice VK_QUEUE_COMPUTE_BIT (queueFamilyProperties drv)
      (physicalDevices drv) (VK_NULL_HANDLE, 0) = (VK_NULL_HANDLE, 0)"
    using none by (rule selectDevice_none)
  have len: "word_of_nat (length main_layoutBindings) = (3 :: 32 word)"
    by (simp add: main_layoutBindings_def)
  have ext: "prefix [Create Instance, EnumeratePhysicalDevices False,
      EnumeratePhysicalDevices True, CreateDevice VK_NULL_HANDLE 0]
     (trace (main_layout drv [Create Instance, EnumeratePhysicalDevices False,
      EnumeratePhysicalDevices True, CreateDevice VK_NULL_HANDLE 0] VK_NULL_HANDLE
        main_layoutBindings))"
    by (rule main_layout_extends)
  have begins: "prefix [Create Instance, EnumeratePhysicalDevices False,
      EnumeratePhysicalDevices True, CreateDevice VK_NULL_HANDLE 0,
      CreateDescriptorSetLayout 3 main_layoutBindings]
     (trace (main_layout drv [Create Instance, EnumeratePhysicalDevices False,
      EnumeratePhysicalDevices True, CreateDevice VK_NULL_HANDLE 0] VK_NULL_HANDLE
        main_layoutBindings))"
    using main_layout_begins [of "[Create Instance, EnumeratePhysicalDevices False,
      EnumeratePhysicalDevices True, CreateDevice VK_NULL_HANDLE 0]" main_layoutBindings
      drv VK_NULL_HANDLE]
    by (simp add: len)
  show ?thesis
    using sel ext begins created counted listed
    by (simp add: main_def main_device_def call_def early_return_def finish_def)
qed

text \<open>
  Two drivers whose only device has a graphics-only queue family: one rejects
  \<open>vkCreateDevice\<close> on the null handle with \<open>VK_ERROR_INITIALIZATION_FAILED\<close>, the other
  accepts it.
\<close>

theorem no_capable_device_proceeds_witness:
  "outcome (main drv_no_compute) = Returns (-3) \<and>
   trace (main drv_no_compute) =
     [Create Instance, EnumeratePhysicalDevices False, EnumeratePhysicalDevices True,
      CreateDevice VK_NULL_HANDLE 0] \<and>
   prefix [Create Instance, EnumeratePhysicalDevices False, EnumeratePhysicalDevices True,
           CreateDevice VK_NULL_HANDLE 0, CreateDescriptorSetLayout 3 main_layoutBindings]
     (trace (main drv_null_accepted))"
proof -
  have none: "\<forall>d\<in>set (physicalDevices drv_no_compute).
      \<forall>f\<in>set (queueFamilyProperties drv_no_compute d). f AND VK_QUEUE_COMPUTE_BIT = 0"
    by (simp add: drv_no_compute_def drv_ok_def VK_QUEUE_COMPUTE_BIT_def
        VK_QUEUE_GRAPHICS_BIT_def)
  have created: "vkResult drv_no_compute [] (Create Instance) = VK_SUCCESS"
    by (simp add: drv_no_compute_def drv_ok_def)
  have counted: "vkResult drv_no_compute [Create Instance] (EnumeratePhysicalDevices False)
      = VK_SUCCESS"
    by (simp add: drv_no_compute_def drv_ok_def)
  have listed: "vkResult drv_no_compute [Create Instance, EnumeratePhysicalDevices False]
      (EnumeratePhysicalDevices True) = VK_SUCCESS"
    by (simp add: drv_no_compute_def drv_ok_def)
  have answer: "vkResult drv_no_compute [Create Instance, EnumeratePhysicalDevices False,
      EnumeratePhysicalDevices True] (CreateDevice VK_NULL_HANDLE 0) = -3"
    by (simp add: drv_no_compute_def drv_ok_def)
  have rejected: "outcome (main drv_no_compute) = Returns (-3) \<and>
      trace (main drv_no_compute) =
        [Create Instance, EnumeratePhysicalDevices False, EnumeratePhysicalDevices True,
         CreateDevice VK_NULL_HANDLE 0]"
    using no_capable_device_proceeds [OF none created counted listed] answer
    by (simp add: VK_SUCCESS_def)
  have none': "\<forall>d\<in>set (physicalDevices drv_null_accepted).
      \<forall>f\<in>set (queueFamilyProperties drv_null_accepted d). f AND VK_QUEUE_COMPUTE_BIT = 0"
    by (simp add: drv_null_accepted_def drv_ok_def VK_QUEUE_COMPUTE_BIT_def
        VK_QUEUE_GRAPHICS_BIT_def)
  have succeeds: "vkResult drv_null_accepted tr e = VK_SUCCESS" for tr e
    by (simp add: drv_null_accepted_def drv_ok_def)
  have accepted: "prefix [Create Instance, EnumeratePhysicalDevices False,
      EnumeratePhysicalDevices True, CreateDevice VK_NULL_HANDLE 0,
      CreateDescriptorSetLayout 3 main_layoutBindings] (trace (main drv_null_accepted))"
    using no_capable_device_proceeds [OF none' succeeds succeeds succeeds] succeeds
    by simp
  from rejected accepted show ?thesis by simp
qed

section \<open>Memory type selection and the sentinel\<close>

text \<open>
  C4. For a well-formed property table, \<open>findMemoryTypeFromProperties\<close> returns -1
  exactly when no index below the count is both in the type bitmask and has property
  flags equal to the requested set; any other result is such an index (equal flags,
  never a mere superset). When the lookup of the compute example returns -1, the rest
  of \<open>main\<close> makes no further call and returns -43 (\<open>~42\<close>).
\<close>

theorem memory_type_exact_or_sentinel:
  assumes "wellformed_properties properties"
  shows "(findMemoryTypeFromProperties bits properties required = -1) =
           (\<forall>index < unat (memoryTypeCount properties).
              \<not> (bit bits index \<and> memoryTypes properties ! index = required)) \<and>
         (findMemoryTypeFromProperties bits properties required \<noteq> -1 \<longrightarrow>
            0 \<le> findMemoryTypeFromProperties bits properties required \<and>
            nat (findMemoryTypeFromProperties bits properties required)
              < unat (memoryTypeCount properties) \<and>
            bit bits (nat (findMemoryTypeFromProperties bits properties required)) \<and>
            memoryTypes properties ! nat (findMemoryTypeFromProperties bits properties required)
              = required) \<and>
         (physicalDeviceMemoryProperties drv physicalDevice = properties \<and>
          findMemoryTypeFromProperties (memoryTypeBits (bufferMemoryRequirements drv BufferA))
            properties
            (VK_MEMORY_PROPERTY_HOST_VISIBLE_BIT OR VK_MEMORY_PROPERTY_HOST_COHERENT_BIT) = -1
          \<longrightarrow> outcome (main_memory drv t physicalDevice layoutBindings) = Returns (-43) \<and>
              trace (main_memory drv t physicalDevice layoutBindings) = t)"
proof -
  let ?r = "findMemoryTypeFromProperties bits properties required"
  have res: "(?r = -1 \<and> (\<forall>i. 0 \<le> i \<and> i < unat (memoryTypeCount properties) \<longrightarrow>
        \<not> (bit bits i \<and> memoryTypes properties ! i = required))) \<or>
   (0 \<le> ?r \<and> 0 \<le> nat ?r \<and> nat ?r < unat (memoryTypeCount properties) \<and>
    bit bits (nat ?r) \<and> memoryTypes properties ! nat ?r = required \<and>
    (\<forall>i. 0 \<le> i \<and> i < nat ?r \<longrightarrow> \<not> (bit bits i \<and> memoryTypes properties ! i = required)))"
    by (rule findMemoryTypeLoop_result) (simp add: findMemoryTypeFromProperties_def)
  have first: "(?r = -1) =
           (\<forall>index < unat (memoryTypeCount properties).
              \<not> (bit bits index \<and> memoryTypes properties ! index = required))"
    using res by auto
  have second: "?r \<noteq> -1 \<longrightarrow> 0 \<le> ?r \<and> nat ?r < unat (memoryTypeCount properties) \<and>
            bit bits (nat ?r) \<and> memoryTypes properties ! nat ?r = required"
    using res by auto
  have third: "physicalDeviceMemoryProperties drv physicalDevice = properties \<and>
          findMemoryTypeFromProperties (memoryTypeBits (bufferMemoryRequirements drv BufferA))
            properties
            (VK_MEMORY_PROPERTY_HOST_VISIBLE_BIT OR VK_MEMORY_PROPERTY_HOST_COHERENT_BIT) = -1
          \<longrightarrow> outcome (main_memory drv t physicalDevice layoutBindings) = Returns (-43) \<and>
              trace (main_memory drv t physicalDevice layoutBindings) = t"
    by (simp add: main_memory_def early_return_def finish_def Let_def)
  from first second third show ?thesis by blast
qed

text \<open>
  A device whose only host-visible coherent type is also host-cached: the lookup for
  flags 6 finds nothing although type 0 (flags 14) contains them, and the process
  returns -43.
\<close>

theorem memory_type_exact_or_sentinel_witness:
  "wellformed_properties superset_properties \<and>
   findMemoryTypeFromProperties 1 superset_properties 6 = -1 \<and>
   findMemoryTypeFromProperties 1 superset_properties 14 = 0 \<and>
   outcome (main drv_superset) = Returns (-43)"
proof -
  have wf: "wellformed_properties superset_properties"
    by (simp add: wellformed_properties_def superset_properties_def VK_MAX_MEMORY_TYPES_def)
  have none: "\<forall>index < unat (memoryTypeCount superset_properties).
      \<not> (bit (1 :: 32 word) index \<and> memoryTypes superset_properties ! index = 6)"
  proof -
    have count: "unat (memoryTypeCount superset_properties) = 2"
      by (simp add: superset_properties_def)
    show ?thesis
      unfolding count by (auto simp: less_2_cases_iff superset_properties_def)
  qed
  have props: "physicalDeviceMemoryProperties drv_superset 1 = superset_properties"
    by (simp add: drv_superset_def)
  have bits: "memoryTypeBits (bufferMemoryRequirements drv_superset BufferA) = 1"
    by (simp add: drv_superset_def drv_ok_def)
  have flags: "VK_MEMORY_PROPERTY_HOST_VISIBLE_BIT OR VK_MEMORY_PROPERTY_HOST_COHERENT_BIT = 6"
    by (simp add: VK_MEMORY_PROPERTY_HOST_VISIBLE_BIT_def
        VK_MEMORY_PROPERTY_HOST_COHERENT_BIT_def)
  have cached: "findMemoryTypeFromProperties 1 superset_properties 14 = 0"
    by (simp add: findMemoryTypeFromProperties_def findMemoryTypeLoop.simps
        superset_properties_def)
  note inst = memory_type_exact_or_sentinel [OF wf, of 1 6 drv_superset 1 _ main_layoutBindings]
  from inst none have minus: "findMemoryTypeFromProperties 1 superset_properties 6 = -1"
    by blast
  with inst props bits flags have "outcome (main drv_superset) = Returns (-43)"
    by (simp add: superset_reaches_memory)
  with wf minus cached show ?thesis by simp
qed

section \<open>Lemmas on initial pieces of a trace\<close>

lemma exclusive_prefix:
  "prefix p t \<Longrightarrow> exclusive mapped inflight t \<Longrightarrow> exclusive mapped inflight p"
  by (induction mapped inflight t arbitrary: p rule: exclusive.induct) (auto simp: prefix_Cons)


lemma map_filter_prefix: "prefix p t \<Longrightarrow> prefix (List.map_filter f p) (List.map_filter f t)"
  by (auto elim!: prefixE simp: List.map_filter_def)




section \<open>Runs that reach the end\<close>

lemma main_succeeds:
  assumes "all_succeed drv"
    and "0 \<le> findMemoryTypeFromProperties (memoryTypeBits (bufferMemoryRequirements drv BufferA))
           (physicalDeviceMemoryProperties drv (fst (selected VK_QUEUE_COMPUTE_BIT drv)))
           (VK_MEMORY_PROPERTY_HOST_VISIBLE_BIT OR VK_MEMORY_PROPERTY_HOST_COHERENT_BIT)"
  shows "outcome (main drv) = Returns 0"
  using assms
  by (simp add: all_succeed_def main_def main_device_def selected_def section_defs Let_def
      split_def)

lemma ok_all_succeed: "all_succeed drv_ok"
  by (simp add: all_succeed_def drv_ok_def)

lemma ok_selected:
  "selected VK_QUEUE_COMPUTE_BIT drv_ok = (1, 0)"
  by (simp add: selected_def drv_ok_def VK_QUEUE_COMPUTE_BIT_def VK_QUEUE_GRAPHICS_BIT_def
      VK_NULL_HANDLE_def)

lemma ok_find:
  "findMemoryTypeFromProperties 1 ok_properties
     (VK_MEMORY_PROPERTY_HOST_VISIBLE_BIT OR VK_MEMORY_PROPERTY_HOST_COHERENT_BIT) = 0"
  by (simp add: findMemoryTypeFromProperties_def findMemoryTypeLoop.simps ok_properties_def
      VK_MEMORY_PROPERTY_HOST_VISIBLE_BIT_def VK_MEMORY_PROPERTY_HOST_COHERENT_BIT_def)

lemma ok_run: "outcome (main drv_ok) = Returns 0"
  by (rule main_succeeds [OF ok_all_succeed]) (simp add: ok_selected, simp add: drv_ok_def ok_find)

section \<open>Mapping windows and submission\<close>

text \<open>
  C8. In every run of the compute example the calls that map or unmap the block, submit
  to the queue or wait for it form an initial piece of the sequence map, unmap, submit,
  wait idle, map, unmap: the block is never mapped when work is submitted and never
  mapped again before the queue has been waited idle. A run that returns 0 makes all
  six calls, so it has exactly two mapping windows, the first closed before the
  submission and the second opened after the wait.
\<close>

theorem mapping_windows_exclusive:
  "prefix (sync_events (trace (main drv)))
     [MapMemory Memory, UnmapMemory Memory, QueueSubmit, QueueWaitIdle,
      MapMemory Memory, UnmapMemory Memory] \<and>
   exclusive False False (trace (main drv)) \<and>
   (outcome (main drv) = Returns 0 \<longrightarrow>
    sync_events (trace (main drv)) =
      [MapMemory Memory, UnmapMemory Memory, QueueSubmit, QueueWaitIdle,
       MapMemory Memory, UnmapMemory Memory])"
proof -
  have all: "sync_events (main_calls drv) =
      [MapMemory Memory, UnmapMemory Memory, QueueSubmit, QueueWaitIdle,
       MapMemory Memory, UnmapMemory Memory]"
    by (simp add: sync_events_def main_calls_def calls_after_layout_def Let_def)
  have "prefix (sync_events (trace (main drv))) (sync_events (main_calls drv))"
    unfolding sync_events_def by (rule filter_mono_prefix) (rule main_prefix)
  with all have first: "prefix (sync_events (trace (main drv)))
      [MapMemory Memory, UnmapMemory Memory, QueueSubmit, QueueWaitIdle,
       MapMemory Memory, UnmapMemory Memory]" by simp
  have "exclusive False False (main_calls drv)"
    by (simp add: main_calls_def calls_after_layout_def Let_def)
  with main_prefix have second: "exclusive False False (trace (main drv))"
    by (rule exclusive_prefix)
  have third: "outcome (main drv) = Returns 0 \<longrightarrow>
    sync_events (trace (main drv)) =
      [MapMemory Memory, UnmapMemory Memory, QueueSubmit, QueueWaitIdle,
       MapMemory Memory, UnmapMemory Memory]"
    using all by (simp add: main_complete)
  from first second third show ?thesis by blast
qed

text \<open>The run against the driver that answers every call with success.\<close>

theorem mapping_windows_exclusive_witness:
  "outcome (main drv_ok) = Returns 0 \<and>
   sync_events (trace (main drv_ok)) =
     [MapMemory Memory, UnmapMemory Memory, QueueSubmit, QueueWaitIdle,
      MapMemory Memory, UnmapMemory Memory] \<and>
   exclusive False False (trace (main drv_ok))"
  using mapping_windows_exclusive [of drv_ok] ok_run by simp

section \<open>Teardown\<close>

lemma main_calls_created:
  "created (main_calls drv) =
     [Instance, Device, SetLayout, PipelineLayout, ShaderModule, Pipeline, BufferA, BufferB,
      BufferResult, Memory, DescriptorPool, DescriptorSet, CommandPool, CommandBuffer]"
  by (simp add: created_def main_calls_def calls_after_layout_def Let_def
      List.map_filter_simps)

lemma main_calls_destroyed:
  "destroyed (main_calls drv) =
     [ShaderModule, CommandPool, Memory, BufferResult, BufferB, BufferA, DescriptorPool,
      Pipeline, PipelineLayout, SetLayout, Device, Instance]"
  by (simp add: destroyed_def main_calls_def calls_after_layout_def Let_def
      List.map_filter_simps)

lemma main_calls_pipeline:
  "take 2 (dropWhile (\<lambda>e. e \<noteq> Create Pipeline) (main_calls drv)) =
     [Create Pipeline, Destroy ShaderModule]"
  by (simp add: main_calls_def calls_after_layout_def Let_def)

lemma main_calls_memory_first:
  "released_before Memory BufferResult (main_calls drv) \<and>
   released_before Memory BufferB (main_calls drv) \<and>
   released_before Memory BufferA (main_calls drv)"
  by (simp add: released_before_def main_calls_def calls_after_layout_def Let_def)

lemma main_calls_not_outlives: "\<not> memory_outlives_buffers (main_calls drv)"
  by (simp add: memory_outlives_buffers_def released_before_def main_calls_def
      calls_after_layout_def Let_def)

lemma main_layout_early:
  "outcome (main_layout drv t physicalDevice layoutBindings) \<noteq> Returns 0 \<Longrightarrow>
   prefix (trace (main_layout drv t physicalDevice layoutBindings))
     (t @ take 28 (calls_after_layout drv physicalDevice layoutBindings))"
  by (simp add: section_defs calls_after_layout_def Let_def split_def split: if_splits)

lemma main_early:
  "outcome (main drv) \<noteq> Returns 0 \<Longrightarrow> prefix (trace (main drv)) (take 32 (main_calls drv))"
  using main_layout_early [of drv
      "[Create Instance, EnumeratePhysicalDevices False, EnumeratePhysicalDevices True,
        CreateDevice (fst (selected VK_QUEUE_COMPUTE_BIT drv))
          (snd (selected VK_QUEUE_COMPUTE_BIT drv))]"
      "fst (selected VK_QUEUE_COMPUTE_BIT drv)" main_layoutBindings]
  by (simp add: main_def main_device_def main_calls_def selected_def early_return_def
      finish_def call_def Let_def split_def split: if_splits)

lemma main_early_destroyed:
  assumes "outcome (main drv) \<noteq> Returns 0"
  shows "set (destroyed (trace (main drv))) \<subseteq> {ShaderModule}"
proof -
  have "prefix (destroyed (trace (main drv))) (destroyed (take 32 (main_calls drv)))"
    unfolding destroyed_def using main_early [OF assms] by (rule map_filter_prefix)
  moreover have "destroyed (take 32 (main_calls drv)) = [ShaderModule]"
    by (simp add: destroyed_def main_calls_def calls_after_layout_def Let_def
        List.map_filter_simps)
  ultimately have "prefix (destroyed (trace (main drv))) [ShaderModule]" by simp
  then have "set (destroyed (trace (main drv))) \<subseteq> set [ShaderModule]"
    by (rule set_mono_prefix)
  then show ?thesis by simp
qed

lemma superset_fields:
  "physicalDeviceMemoryProperties drv_superset d = superset_properties"
  "memoryTypeBits (bufferMemoryRequirements drv_superset b) = 1"
  by (simp_all add: drv_superset_def drv_ok_def)

lemma find_superset:
  "findMemoryTypeFromProperties 1 superset_properties
     (VK_MEMORY_PROPERTY_HOST_VISIBLE_BIT OR VK_MEMORY_PROPERTY_HOST_COHERENT_BIT) = -1"
  by (simp add: findMemoryTypeFromProperties_def findMemoryTypeLoop.simps
      superset_properties_def VK_MEMORY_PROPERTY_HOST_VISIBLE_BIT_def
      VK_MEMORY_PROPERTY_HOST_COHERENT_BIT_def)

lemma superset_run:
  "outcome (main drv_superset) = Returns (-43) \<and>
   trace (main drv_superset) =
     [Create Instance, EnumeratePhysicalDevices False, EnumeratePhysicalDevices True,
      CreateDevice 1 0, CreateDescriptorSetLayout 3 main_layoutBindings,
      Create PipelineLayout, Create ShaderModule, Create Pipeline, Destroy ShaderModule,
      Create BufferA, Create BufferB, Create BufferResult]"
  unfolding superset_reaches_memory
  by (simp add: main_memory_def superset_fields find_superset early_return_def finish_def)

text \<open>
  C6, as the specification states it, fails: in the run that returns 0 the block is
  freed (\<open>vkFreeMemory\<close>, line 527) before buffer A, bound into it, is destroyed
  (line 530).
\<close>

theorem teardown_counterexample:
  "outcome (main drv_ok) = Returns 0 \<and>
   released_before Memory BufferA (trace (main drv_ok)) \<and>
   \<not> memory_outlives_buffers (trace (main drv_ok))"
  using main_calls_memory_first [of drv_ok] main_calls_not_outlives [of drv_ok]
  by (simp add: ok_run main_complete)

text \<open>
  C6, amended. A run of the compute example that returns 0 creates its objects in the
  order listed first. Its shader module is destroyed as soon as the pipeline is built
  (the call that follows the creation of the pipeline destroys it); the descriptor set
  and the command buffer are released only through their pools. Leaving the descriptor
  pool aside (it is released too), the other objects are released at the end in the
  reverse of the order of their creation. The block was allocated after the three
  buffers were created, so it is freed before each of them is destroyed. A run that
  ends any other way releases nothing but the shader module.
\<close>

theorem teardown_order:
  "(outcome (main drv) = Returns 0 \<longrightarrow>
      created (trace (main drv)) =
        [Instance, Device, SetLayout, PipelineLayout, ShaderModule, Pipeline, BufferA,
         BufferB, BufferResult, Memory, DescriptorPool, DescriptorSet, CommandPool,
         CommandBuffer] \<and>
      remove1 DescriptorPool (destroyed (trace (main drv))) =
        [ShaderModule, CommandPool, Memory, BufferResult, BufferB, BufferA, Pipeline,
         PipelineLayout, SetLayout, Device, Instance] \<and>
      remove1 DescriptorPool (destroyed (trace (main drv))) =
        ShaderModule #
        rev (filter (\<lambda>x. x \<notin> set [ShaderModule, DescriptorPool, DescriptorSet, CommandBuffer])
               (created (trace (main drv)))) \<and>
      DescriptorPool \<in> set (destroyed (trace (main drv))) \<and>
      take 2 (dropWhile (\<lambda>e. e \<noteq> Create Pipeline) (trace (main drv))) =
        [Create Pipeline, Destroy ShaderModule] \<and>
      released_before Memory BufferResult (trace (main drv)) \<and>
      released_before Memory BufferB (trace (main drv)) \<and>
      released_before Memory BufferA (trace (main drv))) \<and>
   (outcome (main drv) \<noteq> Returns 0 \<longrightarrow>
      set (destroyed (trace (main drv))) \<subseteq> {ShaderModule})"
  using main_calls_created [of drv] main_calls_destroyed [of drv]
    main_calls_memory_first [of drv] main_early_destroyed [of drv]
    main_calls_pipeline [of drv]
  by (simp add: main_complete)

text \<open>
  Two runs: the compute example to its end, and the compute example stopped by the
  missing memory type.
\<close>

theorem teardown_order_witness:
  "outcome (main drv_ok) = Returns 0 \<and>
   take 2 (dropWhile (\<lambda>e. e \<noteq> Create Pipeline) (trace (main drv_ok))) =
     [Create Pipeline, Destroy ShaderModule] \<and>
   remove1 DescriptorPool (destroyed (trace (main drv_ok))) =
     [ShaderModule, CommandPool, Memory, BufferResult, BufferB, BufferA, Pipeline,
      PipelineLayout, SetLayout, Device, Instance] \<and>
   released_before Memory BufferA (trace (main drv_ok)) \<and>
   outcome (main drv_superset) = Returns (-43) \<and>
   destroyed (trace (main drv_superset)) = [ShaderModule]"
proof -
  have early: "outcome (main drv_superset) = Returns (-43) \<and>
      destroyed (trace (main drv_superset)) = [ShaderModule]"
    by (simp add: superset_run destroyed_def List.map_filter_simps)
  from teardown_order [of drv_ok] ok_run early show ?thesis by simp
qed

section \<open>Descriptor slots\<close>





section \<open>Memory requirements, block size and bind offsets\<close>

lemma main_calls_memory_events:
  "memory_events (main_calls drv) =
     [AllocateMemory Memory (3 * size_mr (bufferMemoryRequirements drv BufferA))
        (word_of_int (findMemoryTypeFromProperties
           (memoryTypeBits (bufferMemoryRequirements drv BufferA))
           (physicalDeviceMemoryProperties drv (fst (selected VK_QUEUE_COMPUTE_BIT drv)))
           (VK_MEMORY_PROPERTY_HOST_VISIBLE_BIT OR VK_MEMORY_PROPERTY_HOST_COHERENT_BIT))),
      BindBufferMemory BufferA Memory 0,
      BindBufferMemory BufferB Memory (size_mr (bufferMemoryRequirements drv BufferA)),
      BindBufferMemory BufferResult Memory
        (2 * size_mr (bufferMemoryRequirements drv BufferA))]"
  by (simp add: memory_events_def main_calls_def calls_after_layout_def Let_def
      requiredMemorySize_def memoryOffsets_def)

lemma main_reads_only:
  assumes "vkResult a = vkResult b" and "physicalDevices a = physicalDevices b"
    and "queueFamilyProperties a = queueFamilyProperties b"
    and "bufferMemoryRequirements a BufferA = bufferMemoryRequirements b BufferA"
    and "physicalDeviceMemoryProperties a = physicalDeviceMemoryProperties b"
    and "initial_memory a = initial_memory b"
  shows "main a = main b"
  using assms
  by (simp add: main_def main_device_def section_defs Let_def split_def)

text \<open>
  C10. The three requirement queries of the compute example all name buffer A. So in
  every run the allocation and bind calls are an initial piece of: allocate three times
  buffer A's required size, bind A at 0, B at that size, Result at twice that size (all
  four in a run that returns 0); and the whole run is the same whatever the driver
  would answer for the requirements of buffers B and Result.
\<close>

theorem requirements_all_from_bufferA:
  "prefix (memory_events (trace (main drv)))
     [AllocateMemory Memory (3 * size_mr (bufferMemoryRequirements drv BufferA))
        (word_of_int (findMemoryTypeFromProperties
           (memoryTypeBits (bufferMemoryRequirements drv BufferA))
           (physicalDeviceMemoryProperties drv (fst (selected VK_QUEUE_COMPUTE_BIT drv)))
           (VK_MEMORY_PROPERTY_HOST_VISIBLE_BIT OR VK_MEMORY_PROPERTY_HOST_COHERENT_BIT))),
      BindBufferMemory BufferA Memory 0,
      BindBufferMemory BufferB Memory (size_mr (bufferMemoryRequirements drv BufferA)),
      BindBufferMemory BufferResult Memory
        (2 * size_mr (bufferMemoryRequirements drv BufferA))] \<and>
   (outcome (main drv) = Returns 0 \<longrightarrow>
    memory_events (trace (main drv)) =
     [AllocateMemory Memory (3 * size_mr (bufferMemoryRequirements drv BufferA))
        (word_of_int (findMemoryTypeFromProperties
           (memoryTypeBits (bufferMemoryRequirements drv BufferA))
           (physicalDeviceMemoryProperties drv (fst (selected VK_QUEUE_COMPUTE_BIT drv)))
           (VK_MEMORY_PROPERTY_HOST_VISIBLE_BIT OR VK_MEMORY_PROPERTY_HOST_COHERENT_BIT))),
      BindBufferMemory BufferA Memory 0,
      BindBufferMemory BufferB Memory (size_mr (bufferMemoryRequirements drv BufferA)),
      BindBufferMemory BufferResult Memory
        (2 * size_mr (bufferMemoryRequirements drv BufferA))]) \<and>
   main (drv\<lparr>bufferMemoryRequirements :=
           (bufferMemoryRequirements drv)(BufferB := requirementsB,
                                         BufferResult := requirementsResult)\<rparr>)
     = main drv"
proof -
  have "prefix (memory_events (trace (main drv))) (memory_events (main_calls drv))"
    unfolding memory_events_def using main_prefix by (rule filter_mono_prefix)
  then have first: "prefix (memory_events (trace (main drv)))
     [AllocateMemory Memory (3 * size_mr (bufferMemoryRequirements drv BufferA))
        (word_of_int (findMemoryTypeFromProperties
           (memoryTypeBits (bufferMemoryRequirements drv BufferA))
           (physicalDeviceMemoryProperties drv (fst (selected VK_QUEUE_COMPUTE_BIT drv)))
           (VK_MEMORY_PROPERTY_HOST_VISIBLE_BIT OR VK_MEMORY_PROPERTY_HOST_COHERENT_BIT))),
      BindBufferMemory BufferA Memory 0,
      BindBufferMemory BufferB Memory (size_mr (bufferMemoryRequirements drv BufferA)),
      BindBufferMemory BufferResult Memory
        (2 * size_mr (bufferMemoryRequirements drv BufferA))]"
    by (simp only: main_calls_memory_events)
  have second: "outcome (main drv) = Returns 0 \<longrightarrow>
    memory_events (trace (main drv)) = memory_events (main_calls drv)"
    by (simp add: main_complete)
  have third: "main (drv\<lparr>bufferMemoryRequirements :=
           (bufferMemoryRequirements drv)(BufferB := requirementsB,
                                         BufferResult := requirementsResult)\<rparr>)
     = main drv"
    by (rule main_reads_only) simp_all
  from first second third show ?thesis
    by (simp only: main_calls_memory_events)
qed

lemma bigger_B_run: "outcome (main drv_bigger_B) = Returns 0"
proof (rule main_succeeds)
  show "all_succeed drv_bigger_B"
    by (simp add: all_succeed_def drv_bigger_B_def drv_ok_def)
  have "selected VK_QUEUE_COMPUTE_BIT drv_bigger_B = (1, 0)"
    by (simp add: selected_def drv_bigger_B_def drv_ok_def VK_QUEUE_COMPUTE_BIT_def
        VK_QUEUE_GRAPHICS_BIT_def VK_NULL_HANDLE_def)
  then show "0 \<le> findMemoryTypeFromProperties
      (memoryTypeBits (bufferMemoryRequirements drv_bigger_B BufferA))
      (physicalDeviceMemoryProperties drv_bigger_B (fst (selected VK_QUEUE_COMPUTE_BIT drv_bigger_B)))
      (VK_MEMORY_PROPERTY_HOST_VISIBLE_BIT OR VK_MEMORY_PROPERTY_HOST_COHERENT_BIT)"
    by (simp add: drv_bigger_B_def drv_ok_def aligned_requirements_def ok_find)
qed

text \<open>
  A driver for which buffers B and Result would need 8192 bytes each: the block is still
  3 * 4096 bytes and the offsets are 0, 4096 and 8192.
\<close>

theorem requirements_all_from_bufferA_witness:
  "size_mr (bufferMemoryRequirements drv_bigger_B BufferB) = 8192 \<and>
   outcome (main drv_bigger_B) = Returns 0 \<and>
   memory_events (trace (main drv_bigger_B)) =
     [AllocateMemory Memory 12288 0, BindBufferMemory BufferA Memory 0,
      BindBufferMemory BufferB Memory 4096, BindBufferMemory BufferResult Memory 8192]"
proof -
  have sel: "selected VK_QUEUE_COMPUTE_BIT drv_bigger_B = (1, 0)"
    by (simp add: selected_def drv_bigger_B_def drv_ok_def VK_QUEUE_COMPUTE_BIT_def
        VK_QUEUE_GRAPHICS_BIT_def VK_NULL_HANDLE_def)
  have req: "bufferMemoryRequirements drv_bigger_B BufferA = aligned_requirements"
    "size_mr (bufferMemoryRequirements drv_bigger_B BufferB) = 8192"
    "physicalDeviceMemoryProperties drv_bigger_B d = ok_properties" for d
    by (simp_all add: drv_bigger_B_def drv_ok_def)
  from requirements_all_from_bufferA [of drv_bigger_B] bigger_B_run
  show ?thesis
    by (simp add: sel req aligned_requirements_def ok_find)
qed

section \<open>The layout of the block\<close>

lemma aligned_size_unchanged:
  assumes "0 < n" and "n dvd m"
  shows "((m + n - 1) div n) * n = (m::nat)"
proof -
  from assms(2) obtain k where m: "m = n * k" by (rule dvdE)
  have sum: "m + n - 1 = (n - 1) + k * n" using assms(1) m by (simp add: algebra_simps)
  have "((n - 1) + k * n) div n = k + (n - 1) div n"
    using assms(1) div_mult_self1 [of n "n - 1" k] by simp
  moreover have "(n - 1) div n = 0" using assms(1) by simp
  ultimately have "(m + n - 1) div n = k" using sum by simp
  with m show ?thesis by simp
qed

lemma spec_alignedSize_aligned:
  assumes "0 < unat (alignment_mr r)" and "unat (alignment_mr r) dvd unat (size_mr r)"
  shows "spec_alignedSize r = unat (size_mr r)"
  unfolding spec_alignedSize_def using assms by (rule aligned_size_unchanged)

text \<open>
  C2, as the specification states it, fails: for buffers that need 4100 bytes at
  alignment 64 the program binds buffer B at offset 4100, which is neither the
  specification's 4160 (4100 rounded up to the alignment) nor a multiple of 64.
\<close>

theorem layout_counterexample:
  "memoryOffsets unaligned_requirements unaligned_requirements = (0, 4100, 8200) \<and>
   spec_offsets 0 [unaligned_requirements, unaligned_requirements, unaligned_requirements]
     = [0, 4160, 8320] \<and>
   \<not> unat (alignment_mr unaligned_requirements)
       dvd unat (fst (snd (memoryOffsets unaligned_requirements unaligned_requirements))) \<and>
   memory_events (trace (main drv_unaligned)) =
     [AllocateMemory Memory 12300 0, BindBufferMemory BufferA Memory 0,
      BindBufferMemory BufferB Memory 4100, BindBufferMemory BufferResult Memory 8200]"
proof -
  have sel: "selected VK_QUEUE_COMPUTE_BIT drv_unaligned = (1, 0)"
    by (simp add: selected_def drv_unaligned_def drv_ok_def VK_QUEUE_COMPUTE_BIT_def
        VK_QUEUE_GRAPHICS_BIT_def VK_NULL_HANDLE_def)
  have req: "bufferMemoryRequirements drv_unaligned b = unaligned_requirements"
    "physicalDeviceMemoryProperties drv_unaligned d = ok_properties" for b d
    by (simp_all add: drv_unaligned_def drv_ok_def)
  have "all_succeed drv_unaligned"
    by (simp add: all_succeed_def drv_unaligned_def drv_ok_def)
  then have "outcome (main drv_unaligned) = Returns 0"
    by (rule main_succeeds) (simp add: sel req unaligned_requirements_def ok_find)
  then have "trace (main drv_unaligned) = main_calls drv_unaligned"
    by (rule main_complete)
  then have run: "memory_events (trace (main drv_unaligned)) =
     [AllocateMemory Memory 12300 0, BindBufferMemory BufferA Memory 0,
      BindBufferMemory BufferB Memory 4100, BindBufferMemory BufferResult Memory 8200]"
    by (simp add: main_calls_memory_events sel req unaligned_requirements_def ok_find)
  have offsets: "memoryOffsets unaligned_requirements unaligned_requirements = (0, 4100, 8200)"
    by (simp add: memoryOffsets_def Let_def unaligned_requirements_def)
  have plan: "spec_offsets 0
      [unaligned_requirements, unaligned_requirements, unaligned_requirements]
     = [0, 4160, 8320]"
    by (simp add: spec_alignedSize_def unaligned_requirements_def)
  have "\<not> unat (alignment_mr unaligned_requirements)
       dvd unat (fst (snd (memoryOffsets unaligned_requirements unaligned_requirements)))"
    by (simp add: offsets) (simp add: unaligned_requirements_def)
  with offsets plan run show ?thesis by blast
qed

text \<open>
  C2, amended. The compute example lays out its three buffers one after the other with
  the required sizes as the driver reports them, without rounding: the offsets are 0,
  the first size, and the sum of the first two sizes, and (when the three sizes do not
  overflow 64 bits) each region ends where the next begins and the size of the block is
  the last offset plus the last size, so the regions do not overlap. This is the
  specification's plan, for three resources, whenever every size is already a multiple
  of its (non-zero) alignment; when the three requirements are equal and the size is a
  multiple of the alignment, every offset is a multiple of the alignment.
\<close>

theorem layout_is_running_sum:
  assumes "unat (size_mr a) + unat (size_mr b) + unat (size_mr r) < 2 ^ 64"
  shows "memoryOffsets a b = (0, size_mr a, size_mr a + size_mr b) \<and>
         unat (size_mr a + size_mr b) = unat (size_mr a) + unat (size_mr b) \<and>
         unat (requiredMemorySize a b r) = unat (size_mr a + size_mr b) + unat (size_mr r) \<and>
         (0 < unat (alignment_mr a) \<and> unat (alignment_mr a) dvd unat (size_mr a) \<and>
          0 < unat (alignment_mr b) \<and> unat (alignment_mr b) dvd unat (size_mr b) \<and>
          0 < unat (alignment_mr r) \<and> unat (alignment_mr r) dvd unat (size_mr r) \<longrightarrow>
            spec_offsets 0 [a, b, r] =
              [0, unat (size_mr a), unat (size_mr a + size_mr b)] \<and>
            spec_total [a, b, r] = unat (requiredMemorySize a b r)) \<and>
         (b = a \<and> r = a \<and> unat (alignment_mr a) dvd unat (size_mr a) \<longrightarrow>
            unat (alignment_mr a) dvd unat (size_mr a + size_mr b))"
proof -
  have offsets: "memoryOffsets a b = (0, size_mr a, size_mr a + size_mr b)"
    by (simp add: memoryOffsets_def Let_def)
  have "unat (size_mr a) + unat (size_mr b) < 2 ^ LENGTH(64)"
    using assms by simp
  then have ab: "unat (size_mr a + size_mr b) = unat (size_mr a) + unat (size_mr b)"
    by (simp only: unat_add_lem)
  have "unat (size_mr a + size_mr b) + unat (size_mr r) < 2 ^ LENGTH(64)"
    using assms ab by simp
  then have "unat (size_mr a + size_mr b + size_mr r)
      = unat (size_mr a + size_mr b) + unat (size_mr r)"
    by (simp only: unat_add_lem)
  then have total: "unat (requiredMemorySize a b r)
      = unat (size_mr a + size_mr b) + unat (size_mr r)"
    by (simp add: requiredMemorySize_def Let_def)
  have plan: "0 < unat (alignment_mr a) \<and> unat (alignment_mr a) dvd unat (size_mr a) \<and>
          0 < unat (alignment_mr b) \<and> unat (alignment_mr b) dvd unat (size_mr b) \<and>
          0 < unat (alignment_mr r) \<and> unat (alignment_mr r) dvd unat (size_mr r) \<longrightarrow>
            spec_offsets 0 [a, b, r] =
              [0, unat (size_mr a), unat (size_mr a + size_mr b)] \<and>
            spec_total [a, b, r] = unat (requiredMemorySize a b r)"
    using ab total by (simp add: spec_alignedSize_aligned spec_total_def)
  have aligned: "b = a \<and> r = a \<and> unat (alignment_mr a) dvd unat (size_mr a) \<longrightarrow>
            unat (alignment_mr a) dvd unat (size_mr a + size_mr b)"
    using ab by auto
  from offsets ab total plan aligned show ?thesis by blast
qed

text \<open>Three buffers that need 4096 bytes at alignment 64.\<close>

theorem layout_is_running_sum_witness:
  "memoryOffsets aligned_requirements aligned_requirements = (0, 4096, 8192) \<and>
   unat (requiredMemorySize aligned_requirements aligned_requirements aligned_requirements)
     = 12288 \<and>
   spec_offsets 0 [aligned_requirements, aligned_requirements, aligned_requirements]
     = [0, 4096, 8192] \<and>
   spec_total [aligned_requirements, aligned_requirements, aligned_requirements] = 12288"
proof -
  have small: "unat (size_mr aligned_requirements) + unat (size_mr aligned_requirements)
      + unat (size_mr aligned_requirements) < 2 ^ 64"
    by (simp add: aligned_requirements_def)
  have al: "0 < unat (alignment_mr aligned_requirements)"
    "unat (alignment_mr aligned_requirements) dvd unat (size_mr aligned_requirements)"
    by (simp_all add: aligned_requirements_def)
  have sz: "size_mr aligned_requirements = 4096" by (simp add: aligned_requirements_def)
  from layout_is_running_sum [OF small] al show ?thesis
    by (simp add: sz)
qed

section \<open>Descriptor pool capacity\<close>








text \<open>
  For the record, example.cpp: its array holds three bindings and the layout is created
  with the literal count 2; the program creates no descriptor pool.
\<close>

lemma example_layout_count:
  "length example_layoutBindings = 3 \<and>
   prefix [CreateDescriptorSetLayout 2 example_layoutBindings] (trace (example_layout drv []))"
  by (simp add: example_layoutBindings_def example_layout_def call_def early_return_def
      finish_def Let_def split_def)

section \<open>The compute scenario end to end\<close>

lemma write_inputs_loop_alias:
  "index \<le> elements \<Longrightarrow>
   write_inputs_loop 0 elements elements index d i =
     (if index \<le> i \<and> i < elements then word_of_nat i
      else if elements + index \<le> i \<and> i < elements + elements then 42
      else d i)"
proof (induction "elements - index" arbitrary: index d)
  case 0
  then have "index = elements" by simp
  then show ?case
    by (subst write_inputs_loop.simps) auto
next
  case (Suc n)
  then have less: "index < elements" and n: "n = elements - (index + 1)"
    and le: "index + 1 \<le> elements" by simp_all
  have "write_inputs_loop 0 elements elements index d i =
      write_inputs_loop 0 elements elements (index + 1)
        (d(0 + index := word_of_nat index, elements + index := - word_of_nat index,
           elements + index := 42)) i"
    using less by (subst write_inputs_loop.simps) simp
  also have "\<dots> =
     (if index + 1 \<le> i \<and> i < elements then word_of_nat i
      else if elements + (index + 1) \<le> i \<and> i < elements + elements then 42
      else (d(0 + index := word_of_nat index, elements + index := - word_of_nat index,
           elements + index := 42)) i)"
    using Suc.hyps(1) [OF n le] .
  also have "\<dots> =
     (if index \<le> i \<and> i < elements then word_of_nat i
      else if elements + index \<le> i \<and> i < elements + elements then 42
      else d i)"
    using less by auto
  finally show ?case .
qed

lemma vector_add_comp_result:
  "A + n \<le> R \<Longrightarrow> B + n \<le> R \<Longrightarrow>
   vector_add_comp A B R n d j =
     (if R \<le> j \<and> j < R + n then d (A + (j - R)) + d (B + (j - R)) else d j)"
proof (induction n arbitrary: j)
  case 0
  then show ?case by (auto simp: vector_add_comp_def)
next
  case (Suc n)
  then have a: "A + n \<le> R" and b: "B + n \<le> R" by simp_all
  have step: "vector_add_comp A B R (Suc n) d =
      (vector_add_comp A B R n d)
        (R + n := vector_add_comp A B R n d (A + n) + vector_add_comp A B R n d (B + n))"
    by (simp add: vector_add_comp_def)
  have an: "vector_add_comp A B R n d (A + n) = d (A + n)"
    using Suc.IH [OF a b, of "A + n"] Suc.prems by simp
  have bn: "vector_add_comp A B R n d (B + n) = d (B + n)"
    using Suc.IH [OF a b, of "B + n"] Suc.prems by simp
  show ?case
    unfolding step an bn using Suc.IH [OF a b, of j] by auto
qed

lemma main_data:
  assumes "all_succeed drv"
    and "0 \<le> findMemoryTypeFromProperties (memoryTypeBits (bufferMemoryRequirements drv BufferA))
           (physicalDeviceMemoryProperties drv (fst (selected VK_QUEUE_COMPUTE_BIT drv)))
           (VK_MEMORY_PROPERTY_HOST_VISIBLE_BIT OR VK_MEMORY_PROPERTY_HOST_COHERENT_BIT)"
  shows "data (main drv) =
           execute_commands
             (memoryOffsets (bufferMemoryRequirements drv BufferA)
                (bufferMemoryRequirements drv BufferA))
             (write_inputs_loop 0 elements elements 0 (initial_memory drv))"
    and "mismatches (main drv) =
           readback_mismatches 0 elements (elements + elements) (data (main drv))"
  using assms
  by (simp_all add: all_succeed_def main_def main_device_def selected_def section_defs Let_def
      split_def)

lemma ok_data:
  "data (main drv_ok) =
     vector_add_comp 0 elements (elements + elements) elements
       (write_inputs_loop 0 elements elements 0 (\<lambda>i. 0))"
proof -
  have find: "0 \<le> findMemoryTypeFromProperties
      (memoryTypeBits (bufferMemoryRequirements drv_ok BufferA))
      (physicalDeviceMemoryProperties drv_ok (fst (selected VK_QUEUE_COMPUTE_BIT drv_ok)))
      (VK_MEMORY_PROPERTY_HOST_VISIBLE_BIT OR VK_MEMORY_PROPERTY_HOST_COHERENT_BIT)"
    by (simp add: ok_selected) (simp add: drv_ok_def ok_find)
  have offsets: "memoryOffsets (bufferMemoryRequirements drv_ok BufferA)
      (bufferMemoryRequirements drv_ok BufferA) = (0, 4096, 8192)"
    by (simp add: memoryOffsets_def Let_def drv_ok_def)
  have init: "initial_memory drv_ok = (\<lambda>i. 0)" by (simp add: drv_ok_def)
  show ?thesis
    unfolding main_data(1) [OF ok_all_succeed find] offsets init
    by (simp add: execute_commands_def elements_def)
qed

lemma ok_readback:
  assumes "i < elements"
  shows "data (main drv_ok) i = word_of_nat i"
    and "data (main drv_ok) (elements + i) = 42"
    and "data (main drv_ok) (elements + elements + i) = word_of_nat i + 42"
  using assms
  by (simp_all add: ok_data vector_add_comp_result write_inputs_loop_alias)

lemma ok_mismatches: "mismatches (main drv_ok) = []"
proof -
  have find: "0 \<le> findMemoryTypeFromProperties
      (memoryTypeBits (bufferMemoryRequirements drv_ok BufferA))
      (physicalDeviceMemoryProperties drv_ok (fst (selected VK_QUEUE_COMPUTE_BIT drv_ok)))
      (VK_MEMORY_PROPERTY_HOST_VISIBLE_BIT OR VK_MEMORY_PROPERTY_HOST_COHERENT_BIT)"
    by (simp add: ok_selected) (simp add: drv_ok_def ok_find)
  show ?thesis
    unfolding main_data(2) [OF ok_all_succeed find] readback_mismatches_def
    by (simp add: filter_empty_conv ok_readback)
qed

text \<open>
  C1 does not hold of the program. Against the driver that answers every call with
  success (buffers of 4096 bytes, a zeroed block) the host's first loop leaves
  \<open>A[i] = i\<close> but \<open>B[i] = 42\<close>: \<open>resultData\<close> is \<open>data + elements\<close> (line 483), the same
  address as \<open>bData\<close>, so the 42 meant for the result overwrites \<open>-i\<close>; the first
  conjunct is \<open>B[5]\<close> as the loop of lines 485-491 leaves it, before anything is
  submitted. The shader then stores \<open>R[i] = A[i] + B[i] = i + 42\<close>. The verification
  loop, which uses the pointers of lines 510-515, finds \<open>R[i] = A[i] + B[i]\<close> everywhere
  and prints nothing, and the run returns 0; but \<open>R[5]\<close> is 47, not 0.
\<close>

theorem result_is_not_zero:
  "write_inputs_loop 0 elements elements 0 (initial_memory drv_ok) (1024 + 5) = 42 \<and>
   outcome (main drv_ok) = Returns 0 \<and>
   mismatches (main drv_ok) = [] \<and>
   data (main drv_ok) 5 = 5 \<and>
   data (main drv_ok) (1024 + 5) = 42 \<and>
   data (main drv_ok) (2048 + 5) = 47"
proof -
  have five: "(5 :: nat) < elements" by (simp add: elements_def)
  have "data (main drv_ok) 5 = 5"
    using ok_readback(1) [OF five] by simp
  moreover have "data (main drv_ok) (1024 + 5) = 42"
    using ok_readback(2) [OF five] by (simp add: elements_def)
  moreover have "data (main drv_ok) (2048 + 5) = 47"
    using ok_readback(3) [OF five] by (simp add: elements_def)
  moreover have "write_inputs_loop 0 elements elements 0 (initial_memory drv_ok) (1024 + 5) = 42"
    by (simp add: write_inputs_loop_alias) (simp add: elements_def)
  ultimately show ?thesis by (simp add: ok_run ok_mismatches)
qed

end
